theory Spec2Isabelle
  imports Main "HOL-Library.AList"
begin

section \<open>Strings\<close>

text \<open>
  JavaScript strings are modelled as \<open>string\<close>; a \<open>char\<close> stands for one code unit
  below 256 (ASCII and Latin-1). The helpers below are the string methods and regular
  expressions the handlers use, each written as the function it computes.
\<close>

definition isDigit :: "char \<Rightarrow> bool" where
  \<comment> \<open>the class \<open>\d\<close>, also \<open>[0-9]\<close>\<close>
  "isDigit c = (c \<in> set ''0123456789'')"

definition isLowerAZ :: "char \<Rightarrow> bool" where
  \<comment> \<open>the class \<open>[a-z]\<close>\<close>
  "isLowerAZ c = (c \<in> set ''abcdefghijklmnopqrstuvwxyz'')"

definition isKeyChar :: "char \<Rightarrow> bool" where
  \<comment> \<open>the class \<open>[a-z0-9_]\<close>\<close>
  "isKeyChar c = (isLowerAZ c \<or> isDigit c \<or> c = CHR ''_'')"

definition isAlnum :: "char \<Rightarrow> bool" where
  \<comment> \<open>the class \<open>[a-z0-9]\<close>\<close>
  "isAlnum c = (isLowerAZ c \<or> isDigit c)"

definition isWhitespace :: "char \<Rightarrow> bool" where
  \<comment> \<open>the class \<open>\s\<close> below 256: tab, line feed, vertical tab, form feed, carriage
      return, space and the no-break space\<close>
  "isWhitespace c = (let n = (of_char c :: nat) in (9 \<le> n \<and> n \<le> 13) \<or> n = 32 \<or> n = 160)"

definition isUpper :: "char \<Rightarrow> bool" where
  \<comment> \<open>the code units below 256 that \<open>toLowerCase\<close> changes: A-Z and the Latin-1 capitals\<close>
  "isUpper c = (let n = (of_char c :: nat) in
     (65 \<le> n \<and> n \<le> 90) \<or> (192 \<le> n \<and> n \<le> 222 \<and> n \<noteq> 215))"

definition toLowerChar :: "char \<Rightarrow> char" where
  \<comment> \<open>adding 32 to a capital sets bit 5, which is clear in every capital\<close>
  "toLowerChar c =
     (if isUpper c
      then (case c of Char b0 b1 b2 b3 b4 b5 b6 b7 \<Rightarrow> Char b0 b1 b2 b3 b4 True b6 b7)
      else c)"

definition toLowerCase :: "string \<Rightarrow> string" where
  "toLowerCase s = map toLowerChar s"

function replace_runs :: "(char \<Rightarrow> bool) \<Rightarrow> string \<Rightarrow> string \<Rightarrow> string" where
  \<comment> \<open>\<open>s.replace(/[P]+/g, r)\<close>: every maximal run of characters of the class becomes \<open>r\<close>\<close>
  "replace_runs P r [] = []"
| "replace_runs P r (c # cs) =
     (if P c then r @ replace_runs P r (dropWhile P cs) else c # replace_runs P r cs)"
  by pat_completeness auto
termination
  by (relation "measure (\<lambda>(P, r, s). length s)")
     (auto simp: less_Suc_eq_le length_dropWhile_le)

fun startsWith :: "string \<Rightarrow> string \<Rightarrow> bool" where
  \<comment> \<open>\<open>s.startsWith(p)\<close>, the pattern first\<close>
  "startsWith [] s = True"
| "startsWith (p # ps) [] = False"
| "startsWith (p # ps) (c # cs) = (p = c \<and> startsWith ps cs)"

fun str_includes :: "string \<Rightarrow> string \<Rightarrow> bool" where
  \<comment> \<open>\<open>s.includes(p)\<close>, the pattern first\<close>
  "str_includes p [] = startsWith p []"
| "str_includes p (c # cs) = (startsWith p (c # cs) \<or> str_includes p cs)"

definition digits_at :: "string \<Rightarrow> string \<Rightarrow> string option" where
  \<comment> \<open>the pattern \<open>lit(\d+)\<close> tried at the start of \<open>s\<close>: the captured digits, as many as
      there are\<close>
  "digits_at lit s =
     (if startsWith lit s \<and> takeWhile isDigit (drop (length lit) s) \<noteq> []
      then Some (takeWhile isDigit (drop (length lit) s)) else None)"

fun match_digits :: "string \<Rightarrow> string \<Rightarrow> string option" where
  \<comment> \<open>\<open>s.match(/lit(\d+)/)\<close>: the capture of the leftmost match, \<open>None\<close> for \<open>null\<close>\<close>
  "match_digits lit [] = digits_at lit []"
| "match_digits lit (c # cs) =
     (case digits_at lit (c # cs) of Some d \<Rightarrow> Some d | None \<Rightarrow> match_digits lit cs)"


definition digit_value :: "char \<Rightarrow> nat" where
  "digit_value c = of_char c - 48"

definition digits_value :: "string \<Rightarrow> nat" where
  \<comment> \<open>the integer that a string of decimal digits spells\<close>
  "digits_value ds = foldl (\<lambda>n c. 10 * n + digit_value c) 0 ds"

text \<open>
  JavaScript numbers are IEEE 754 doubles. The handlers only meet numbers that are
  non-negative integers or \<open>Infinity\<close>, so a number is modelled as the integer it is equal
  to, or \<open>PosInfinity\<close>. Every result of an operation is rounded to the nearest double, ties
  to the even significand: \<open>to_double\<close> keeps the 53 leading bits of an integer.
\<close>

datatype number = Num nat | PosInfinity

function bit_length :: "nat \<Rightarrow> nat" where
  \<comment> \<open>the number of binary digits of \<open>n\<close>\<close>
  "bit_length n = (if n = 0 then 0 else Suc (bit_length (n div 2)))"
  by pat_completeness auto
termination
  by (relation "measure id") auto

declare bit_length.simps [simp del]

definition to_double :: "nat \<Rightarrow> number" where
  \<comment> \<open>the double nearest to the integer \<open>n\<close>: \<open>n\<close> itself when it has at most 53 bits;
      else the 53 leading bits, rounded up when the rest is more than half a unit or exactly
      half with an odd last bit; \<open>Infinity\<close> from \<open>2 ^ 1024\<close> on\<close>
  "to_double n =
     (let e = bit_length n
      in if e \<le> 53 then Num n
         else (let sh = e - 53;
                   q = n div 2 ^ sh;
                   r = n mod 2 ^ sh;
                   half = 2 ^ (sh - 1);
                   m = (if r > half \<or> (r = half \<and> odd q) then q + 1 else q)
               in if m * 2 ^ sh \<ge> 2 ^ 1024 then PosInfinity else Num (m * 2 ^ sh)))"

definition parseInt :: "string \<Rightarrow> number" where
  \<comment> \<open>\<open>parseInt(ds, 10)\<close> on a non-empty string of digits: the double nearest to the integer
      the digits spell\<close>
  "parseInt ds = to_double (digits_value ds)"

fun greater :: "number \<Rightarrow> number \<Rightarrow> bool" where
  \<comment> \<open>\<open>a > b\<close>\<close>
  "greater (Num a) (Num b) = (a > b)"
| "greater PosInfinity (Num b) = True"
| "greater a PosInfinity = False"

fun plus_one :: "number \<Rightarrow> number" where
  \<comment> \<open>\<open>a + 1\<close>\<close>
  "plus_one (Num n) = to_double (n + 1)"
| "plus_one PosInfinity = PosInfinity"

definition digit_char :: "nat \<Rightarrow> char" where
  "digit_char n = ''0123456789'' ! (n mod 10)"

function show_nat :: "nat \<Rightarrow> string" where
  \<comment> \<open>the decimal digits of an integer\<close>
  "show_nat n = (if n < 10 then [digit_char n] else show_nat (n div 10) @ [digit_char n])"
  by pat_completeness auto
termination
  by (relation "measure id") auto

text \<open>
  A number inside a template literal is printed by \<open>Number::toString\<close>: with the fewest
  significant digits that still denote a number whose nearest double is the one printed;
  among several such digit strings the one nearest to the double, the even one at a tie.
  Up to 21 digits are written out, padded with zeros; a longer number is written with an
  exponent. \<open>nearest_multiple x j\<close> is the multiple of \<open>10 ^ j\<close> so chosen, when there is one.
\<close>

definition nearest_multiple :: "nat \<Rightarrow> nat \<Rightarrow> nat option" where
  "nearest_multiple x j =
     (let p = 10 ^ j;
          lo = (x div p) * p;
          hi = lo + p;
          lo_ok = (to_double lo = Num x);
          hi_ok = (to_double hi = Num x)
      in if lo_ok \<and> hi_ok
           then Some (if x - lo < hi - x \<or> (x - lo = hi - x \<and> even (x div p)) then lo else hi)
         else if lo_ok then Some lo
         else if hi_ok then Some hi
         else None)"

definition shortest_decimal :: "nat \<Rightarrow> nat" where
  \<comment> \<open>the integer with the fewest significant digits whose nearest double is \<open>x\<close>\<close>
  "shortest_decimal x =
     (case find (\<lambda>j. nearest_multiple x j \<noteq> None) (rev [0 ..< length (show_nat x)]) of
        None \<Rightarrow> x
      | Some j \<Rightarrow> the (nearest_multiple x j))"

definition show_number :: "number \<Rightarrow> string" where
  \<comment> \<open>\<open>`${v}`\<close>\<close>
  "show_number v =
     (case v of
        PosInfinity \<Rightarrow> ''Infinity''
      | Num x \<Rightarrow>
          (let digits = show_nat (shortest_decimal x);
               n = length digits;
               s = rev (dropWhile (\<lambda>c. c = CHR ''0'') (rev digits))
           in if n \<le> 21 then digits
              else if length s = 1 then s @ ''e+'' @ show_nat (n - 1)
              else hd s # ''.'' @ tl s @ ''e+'' @ show_nat (n - 1)))"

definition trim_hyphens :: "string \<Rightarrow> string" where
  \<comment> \<open>\<open>s.replace(/^-+|-+$/g, '')\<close>\<close>
  "trim_hyphens s =
     rev (dropWhile (\<lambda>c. c = CHR ''-'') (rev (dropWhile (\<lambda>c. c = CHR ''-'') s)))"

section \<open>Guild configuration and topics\<close>

record TicketTopic =
  topic_label :: string
  topic_value :: string
  topic_description :: string
  topic_emoji :: "string option"

record GuildConfig =
  guildId :: string
  categoryId :: "string option"
  logsChannelId :: "string option"
  supportRoleId :: "string option"
  ticketTopics :: "TicketTopic list"

definition truthy :: "string option \<Rightarrow> bool" where
  \<comment> \<open>JavaScript truthiness of a value that is a string, \<open>null\<close> or \<open>undefined\<close>\<close>
  "truthy v = (case v of None \<Rightarrow> False | Some s \<Rightarrow> s \<noteq> [])"

definition or_null :: "string option \<Rightarrow> string option" where
  \<comment> \<open>\<open>v || null\<close>\<close>
  "or_null v = (if truthy v then v else None)"

datatype topic_subcommand =
    Add string string "string option" "string option"
  | Remove string
  | ListTopics

datatype reply =
    NotConfigured
  | InvalidTopicKey string
  | DuplicateTopicKey string
  | TopicLimitExceeded
  | TopicAdded string string
  | TopicNotFound string
  | TopicRemoved string
  | TopicList "TicketTopic list"
  | UnknownTopic
  | DuplicateTicket string
  | CooldownActive int
  | ShowModal string
  | TicketCreated string
  | CreateFailed
  | MissingPermission
  | NotATicketChannel
  | NotSupportStaff
  | CreatorNotFound
  | ControlPanelNotFound
  | ClaimButtonNotFound
  | AlreadyClaimedBySelf
  | AlreadyClaimedByOther string
  | Claimed string
  | ClaimFailed
  | Locked string
  | Unlocked string
  | LockFailed
  | InvalidName
  | Renamed string
  | RenameFailed
  | UserAdded string
  | UserRemoved string
  | UserManagementFailed
  | Closed string
  | CloseFailed
  | UnknownError
  | NoReply

subsection \<open>The variant that keeps its configuration in \<open>config.json\<close>\<close>

definition cleanValue :: "string \<Rightarrow> string" where
  \<comment> \<open>\<open>.toLowerCase().replace(/\s+/g, '_').replace(/[^a-z0-9_]/g, '')\<close>\<close>
  "cleanValue raw =
     replace_runs (\<lambda>c. \<not> isKeyChar c) []
       (replace_runs isWhitespace ''_'' (toLowerCase raw))"

definition writeConfig :: "bool \<Rightarrow> GuildConfig option \<Rightarrow> GuildConfig \<Rightarrow> GuildConfig option" where
  \<comment> \<open>a failed write is logged and leaves the file as it was\<close>
  "writeConfig write_ok stored guildConfig = (if write_ok then Some guildConfig else stored)"

definition ticketTopicCommand_json ::
  "bool \<Rightarrow> GuildConfig option \<Rightarrow> topic_subcommand \<Rightarrow> reply \<times> GuildConfig option" where
  "ticketTopicCommand_json write_ok stored sub =
     (case stored of
        None \<Rightarrow> (NotConfigured, stored)
      | Some guildConfig \<Rightarrow>
          if \<not> truthy (categoryId guildConfig) then (NotConfigured, stored)
          else (case sub of
            Add label raw description emoji \<Rightarrow>
              (let v = cleanValue raw;
                   d = (if truthy description then the description else ''Click to open a ticket.'');
                   e = or_null emoji
               in if v = [] then (InvalidTopicKey raw, stored)
                  else if find (\<lambda>t. topic_value t = v) (ticketTopics guildConfig) \<noteq> None
                    then (DuplicateTopicKey v, stored)
                  else if length (ticketTopics guildConfig) \<ge> 25
                    then (TopicLimitExceeded, stored)
                  else (TopicAdded label v,
                        writeConfig write_ok stored
                          (guildConfig\<lparr>ticketTopics := ticketTopics guildConfig @
                             [\<lparr>topic_label = label, topic_value = v,
                               topic_description = d, topic_emoji = e\<rparr>]\<rparr>)))
          | Remove v \<Rightarrow>
              (let kept = filter (\<lambda>t. topic_value t \<noteq> v) (ticketTopics guildConfig)
               in if length kept = length (ticketTopics guildConfig)
                  then (TopicNotFound v, stored)
                  else (TopicRemoved v,
                        writeConfig write_ok stored (guildConfig\<lparr>ticketTopics := kept\<rparr>)))
          | ListTopics \<Rightarrow> (TopicList (ticketTopics guildConfig), stored)))"

fun run_json :: "GuildConfig option \<Rightarrow> (bool \<times> topic_subcommand) list \<Rightarrow> GuildConfig option" where
  "run_json stored [] = stored"
| "run_json stored ((write_ok, sub) # rest) =
     run_json (snd (ticketTopicCommand_json write_ok stored sub)) rest"

subsection \<open>The variant that keeps its configuration in MongoDB\<close>

definition sanitizeValue :: "string \<Rightarrow> string" where
  \<comment> \<open>\<open>.toLowerCase().replace(/[^a-z0-9_]+/g, '')\<close>\<close>
  "sanitizeValue raw = replace_runs (\<lambda>c. \<not> isKeyChar c) [] (toLowerCase raw)"

definition getGuildConfig :: "bool \<Rightarrow> GuildConfig \<Rightarrow> GuildConfig" where
  \<comment> \<open>the stored document (created on first access); on a database error the safe,
      unconfigured default\<close>
  "getGuildConfig read_ok stored =
     (if read_ok then stored
      else \<lparr>guildId = guildId stored, categoryId = None, logsChannelId = None,
            supportRoleId = None, ticketTopics = []\<rparr>)"

definition setGuildConfig :: "bool \<Rightarrow> GuildConfig \<Rightarrow> GuildConfig \<Rightarrow> GuildConfig" where
  \<comment> \<open>replaces every field but the guild id; a failed update is logged and changes nothing\<close>
  "setGuildConfig write_ok stored newConfig =
     (if write_ok
      then stored\<lparr>categoryId := or_null (categoryId newConfig),
                  logsChannelId := or_null (logsChannelId newConfig),
                  supportRoleId := or_null (supportRoleId newConfig),
                  ticketTopics := ticketTopics newConfig\<rparr>
      else stored)"

record db_env =
  read_ok :: bool
  write_ok :: bool

definition ticketTopicCommand_db ::
  "db_env \<Rightarrow> GuildConfig \<Rightarrow> topic_subcommand \<Rightarrow> reply \<times> GuildConfig" where
  "ticketTopicCommand_db env stored sub =
     (let config = getGuildConfig (read_ok env) stored
      in case sub of
          ListTopics \<Rightarrow> (TopicList (ticketTopics config), stored)
        | Add label raw description emoji \<Rightarrow>
            (let v = sanitizeValue raw
             in if list_ex (\<lambda>t. topic_value t = v) (ticketTopics config)
                then (DuplicateTopicKey v, stored)
                else (TopicAdded label v,
                      setGuildConfig (write_ok env) stored
                        (config\<lparr>ticketTopics := ticketTopics config @
                           [\<lparr>topic_label = label, topic_value = v,
                             topic_description = (case description of None \<Rightarrow> [] | Some d \<Rightarrow> d),
                             topic_emoji = emoji\<rparr>]\<rparr>)))
        | Remove valueToRemove \<Rightarrow>
            (let kept = filter (\<lambda>t. topic_value t \<noteq> valueToRemove) (ticketTopics config)
             in if length kept = length (ticketTopics config)
                then (TopicNotFound valueToRemove, stored)
                else (TopicRemoved valueToRemove,
                      setGuildConfig (write_ok env) stored (config\<lparr>ticketTopics := kept\<rparr>))))"

fun run_db :: "GuildConfig \<Rightarrow> (db_env \<times> topic_subcommand) list \<Rightarrow> GuildConfig" where
  "run_db stored [] = stored"
| "run_db stored ((env, sub) # rest) = run_db (snd (ticketTopicCommand_db env stored sub)) rest"

subsection \<open>Reading the topic list\<close>

definition topics_of :: "GuildConfig option \<Rightarrow> TicketTopic list" where
  \<comment> \<open>the topics of a guild's entry in \<open>config.json\<close>, none when the guild has no entry\<close>
  "topics_of stored = (case stored of None \<Rightarrow> [] | Some g \<Rightarrow> ticketTopics g)"

definition topic_values :: "TicketTopic list \<Rightarrow> string list" where
  "topic_values ts = map topic_value ts"

definition topic_with_key :: "string \<Rightarrow> TicketTopic" where
  \<comment> \<open>the entry that \<open>add\<close> pushes for the label and value \<open>k\<close>, with no description
      and no emoji given\<close>
  "topic_with_key k = \<lparr>topic_label = k, topic_value = k,
     topic_description = ''Click to open a ticket.'', topic_emoji = None\<rparr>"

section \<open>Guilds, channels and members\<close>

datatype ChannelType = GuildText | GuildVoice | GuildCategory

datatype Permission =
  ViewChannel | SendMessages | AttachFiles | ManageChannels | ReadMessageHistory

type_synonym overwrite = "(Permission \<times> bool) list"

record Embed =
  embed_fields :: "(string \<times> string) list"
  embed_footer :: "string option"
  embed_color :: nat

record Message =
  message_author :: string
  message_embeds :: "Embed list"
  message_components :: "string list list"

record Channel =
  channel_id :: string
  channel_name :: string
  channel_type :: ChannelType
  parentId :: "string option"
  channel_topic :: "string option"
  permissionOverwrites :: "(string \<times> overwrite) list"
  messages :: "Message list"

record Guild =
  guild_id :: string
  guild_name :: string
  channels :: "Channel list"

record User =
  user_id :: string
  username :: string
  user_tag :: string

record Member =
  member_user :: User
  member_roles :: "string list"
  is_administrator :: bool

definition cache_get :: "Guild \<Rightarrow> string option \<Rightarrow> Channel option" where
  \<comment> \<open>\<open>guild.channels.cache.get(id)\<close>; no channel has the id \<open>null\<close>\<close>
  "cache_get guild cid =
     (case cid of None \<Rightarrow> None
      | Some i \<Rightarrow> find (\<lambda>c. channel_id c = i) (channels guild))"

definition children :: "Guild \<Rightarrow> Channel \<Rightarrow> Channel list" where
  \<comment> \<open>\<open>category.children.cache\<close>\<close>
  "children guild category =
     filter (\<lambda>c. parentId c = Some (channel_id category)) (channels guild)"

definition notice :: "string \<Rightarrow> nat \<Rightarrow> Message" where
  \<comment> \<open>a message of the bot with one embed that has a colour and a description only\<close>
  "notice botId colour =
     \<lparr>message_author = botId,
       message_embeds = [\<lparr>embed_fields = [], embed_footer = None, embed_color = colour\<rparr>],
       message_components = []\<rparr>"


definition edit_overwrite ::
  "string \<Rightarrow> overwrite \<Rightarrow> (string \<times> overwrite) list \<Rightarrow> (string \<times> overwrite) list" where
  \<comment> \<open>\<open>permissionOverwrites.edit(id, options)\<close>: the named permissions are set, the others
      of the entry kept\<close>
  "edit_overwrite i options ows =
     AList.update i
       (fold (\<lambda>(p, b). AList.update p b) options (case map_of ows i of None \<Rightarrow> [] | Some o' \<Rightarrow> o'))
       ows"

section \<open>The MongoDB variant: tickets named \<open>ticket-N\<close>\<close>

definition ticket_number_of :: "Channel \<Rightarrow> number option" where
  \<comment> \<open>the loop body's \<open>channel.name.match(/ticket-(\d+)/)\<close> and \<open>parseInt(match[1], 10)\<close>\<close>
  "ticket_number_of channel = map_option parseInt (match_digits ''ticket-'' (channel_name channel))"

definition getNextTicketNumber :: "Guild \<Rightarrow> string option \<Rightarrow> number" where
  "getNextTicketNumber guild catId =
     (case cache_get guild catId of
        None \<Rightarrow> Num 1
      | Some category \<Rightarrow>
          if channel_type category \<noteq> GuildCategory then Num 1
          else
            (let ticketChannels =
                   filter (\<lambda>c. startsWith ''ticket-'' (channel_name c) \<and> channel_type c = GuildText)
                     (children guild category);
                 maxNumber =
                   foldl (\<lambda>m channel.
                            case ticket_number_of channel of
                              None \<Rightarrow> m
                            | Some number \<Rightarrow> if greater number m then number else m)
                     (Num 0) ticketChannels
             in plus_one maxNumber))"

record create_env =
  config_read_ok :: bool
  create_ok :: bool
  welcome_ok :: bool
  reply_ok :: bool
  log_send_ok :: bool
  new_channel_id :: string
  bot_id :: string

definition ticket_overwrites :: "string \<Rightarrow> string \<Rightarrow> string \<Rightarrow> string \<Rightarrow> (string \<times> overwrite) list" where
  \<comment> \<open>everyone denied the view; the user, the support role and the bot allowed\<close>
  "ticket_overwrites everyone uid role botId =
     [(everyone, [(ViewChannel, False)]),
      (uid, [(ViewChannel, True), (SendMessages, True), (AttachFiles, True)]),
      (role, [(ViewChannel, True), (SendMessages, True), (AttachFiles, True),
              (ManageChannels, True)]),
      (botId, [(ViewChannel, True), (SendMessages, True), (AttachFiles, True)])]"

definition existing_ticket_db :: "Guild \<Rightarrow> User \<Rightarrow> Channel option" where
  \<comment> \<open>\<open>guild.channels.cache.find(c => c.name.startsWith('ticket-') &&
      c.topic?.includes(`UserID: ${user.id}`))\<close>\<close>
  "existing_ticket_db guild user =
     find (\<lambda>c. startsWith ''ticket-'' (channel_name c) \<and>
               (case channel_topic c of None \<Rightarrow> False
                | Some t \<Rightarrow> str_includes (''UserID: '' @ user_id user) t))
       (channels guild)"

definition ticket_channel ::
  "create_env \<Rightarrow> Guild \<Rightarrow> GuildConfig \<Rightarrow> User \<Rightarrow> TicketTopic \<Rightarrow> Channel" where
  \<comment> \<open>the argument of \<open>guild.channels.create\<close>\<close>
  "ticket_channel env guild config user topic =
     (let ticketNumber = getNextTicketNumber guild (categoryId config);
          channelName = ''ticket-'' @ show_number ticketNumber
      in \<lparr>channel_id = new_channel_id env, channel_name = channelName,
           channel_type = GuildText, parentId = categoryId config,
           channel_topic = Some (''Ticket ID: '' @ channelName @ '' | UserID: '' @
              user_id user @ '' | Topic: '' @ topic_label topic),
           permissionOverwrites =
             ticket_overwrites (guild_id guild) (user_id user)
               (the (supportRoleId config)) (bot_id env),
           messages = []\<rparr>)"

definition welcome_message :: "create_env \<Rightarrow> User \<Rightarrow> TicketTopic \<Rightarrow> Message" where
  \<comment> \<open>the welcome embed with the staff buttons\<close>
  "welcome_message env user topic =
     \<lparr>message_author = bot_id env,
       message_embeds =
         [\<lparr>embed_fields = [(''Opened By'', ''<@'' @ user_id user @ ''>''),
                           (''Topic'', topic_label topic)],
           embed_footer = None, embed_color = 0x0099FF\<rparr>],
       message_components = [[''ticket_claim'', ''ticket_close_confirm'']]\<rparr>"

definition log_message :: "create_env \<Rightarrow> Message" where
  \<comment> \<open>the \<open>Ticket Opened\<close> embed for the logs channel, coloured \<open>ButtonStyle.Success\<close>\<close>
  "log_message env =
     \<lparr>message_author = bot_id env,
       message_embeds = [\<lparr>embed_fields = [], embed_footer = None, embed_color = 3\<rparr>],
       message_components = []\<rparr>"

fun send_in :: "string \<Rightarrow> Message \<Rightarrow> Channel list \<Rightarrow> Channel list" where
  \<comment> \<open>the channels after a message is sent in the channel that the cache has under the id\<close>
  "send_in i m [] = []"
| "send_in i m (c # cs) =
     (if channel_id c = i then c\<lparr>messages := messages c @ [m]\<rparr> # cs else c # send_in i m cs)"

definition log_opened :: "create_env \<Rightarrow> GuildConfig \<Rightarrow> Guild \<Rightarrow> Guild" where
  \<comment> \<open>the log entry: sent when a logs channel is configured and in the cache; a failed send is
      ignored\<close>
  "log_opened env config guild =
     (if truthy (logsChannelId config) \<and> cache_get guild (logsChannelId config) \<noteq> None \<and>
         log_send_ok env
      then guild\<lparr>channels := send_in (the (logsChannelId config)) (log_message env) (channels guild)\<rparr>
      else guild)"

definition handleTicketCreation ::
  "create_env \<Rightarrow> Guild \<Rightarrow> GuildConfig \<Rightarrow> User \<Rightarrow> string \<Rightarrow> reply \<times> Guild" where
  \<comment> \<open>a channel whose welcome message cannot be sent stays in the guild; a confirmation that
      cannot be sent leaves the ticket in place, answers with the creation error and skips
      the log entry\<close>
  "handleTicketCreation env guild stored user topicValue =
     (let config = getGuildConfig (config_read_ok env) stored
      in if \<not> truthy (categoryId config) \<or> \<not> truthy (supportRoleId config)
           then (NotConfigured, guild)
         else case find (\<lambda>t. topic_value t = topicValue) (ticketTopics config) of
           None \<Rightarrow> (UnknownTopic, guild)
         | Some topic \<Rightarrow>
            (case existing_ticket_db guild user of
               Some existingTicket \<Rightarrow> (DuplicateTicket (channel_id existingTicket), guild)
             | None \<Rightarrow>
                 if \<not> create_ok env then (CreateFailed, guild)
                 else if \<not> welcome_ok env
                   then (CreateFailed,
                         guild\<lparr>channels := channels guild @
                           [ticket_channel env guild config user topic]\<rparr>)
                 else if \<not> reply_ok env
                   then (CreateFailed,
                         guild\<lparr>channels := channels guild @
                           [(ticket_channel env guild config user topic)
                              \<lparr>messages := [welcome_message env user topic]\<rparr>]\<rparr>)
                 else (TicketCreated (new_channel_id env),
                       log_opened env config
                         (guild\<lparr>channels := channels guild @
                            [(ticket_channel env guild config user topic)
                               \<lparr>messages := [welcome_message env user topic]\<rparr>]\<rparr>))))"

definition safeName :: "string \<Rightarrow> string" where
  \<comment> \<open>\<open>newName.toLowerCase().replace(/[^a-z0-9]+/g, '-').replace(/^-+|-+$/g, '')\<close>\<close>
  "safeName newName =
     trim_hyphens (replace_runs (\<lambda>c. \<not> isAlnum c) ''-'' (toLowerCase newName))"

definition handleRenameTicket :: "bool \<Rightarrow> Channel \<Rightarrow> string \<Rightarrow> reply \<times> Channel" where
  "handleRenameTicket setName_ok channel newName =
     (if \<not> startsWith ''ticket-'' (channel_name channel) then (NotATicketChannel, channel)
      else if length (safeName newName) < 2 \<or> length (safeName newName) > 100
        then (InvalidName, channel)
      else if \<not> setName_ok then (RenameFailed, channel)
      else (Renamed (safeName newName), channel\<lparr>channel_name := safeName newName\<rparr>))"

definition ticket_creator_db :: "Channel \<Rightarrow> string option" where
  \<comment> \<open>\<open>channel.topic?.match(/UserID: (\d+)/)\<close>\<close>
  "ticket_creator_db channel =
     (case channel_topic channel of None \<Rightarrow> None | Some t \<Rightarrow> match_digits ''UserID: '' t)"

definition handleLockTicket_db :: "bool \<Rightarrow> Channel \<Rightarrow> bool \<Rightarrow> reply \<times> Channel" where
  "handleLockTicket_db edit_ok channel lockState =
     (if \<not> startsWith ''ticket-'' (channel_name channel) then (NotATicketChannel, channel)
      else case ticket_creator_db channel of
        None \<Rightarrow> (CreatorNotFound, channel)
      | Some ticketUserId \<Rightarrow>
          if \<not> edit_ok then (LockFailed, channel)
          else ((if lockState then Locked ticketUserId else Unlocked ticketUserId),
                channel\<lparr>permissionOverwrites :=
                  edit_overwrite ticketUserId [(SendMessages, \<not> lockState)]
                    (permissionOverwrites channel)\<rparr>))"

definition handleUserManagement :: "bool \<Rightarrow> Channel \<Rightarrow> User \<Rightarrow> bool \<Rightarrow> reply \<times> Channel" where
  "handleUserManagement edit_ok channel userToManage isAdd =
     (if \<not> startsWith ''ticket-'' (channel_name channel) then (NotATicketChannel, channel)
      else if \<not> edit_ok then (UserManagementFailed, channel)
      else if isAdd
        then (UserAdded (user_id userToManage),
              channel\<lparr>permissionOverwrites :=
                edit_overwrite (user_id userToManage)
                  [(ViewChannel, True), (SendMessages, True), (AttachFiles, True)]
                  (permissionOverwrites channel)\<rparr>)
      else (UserRemoved (user_id userToManage),
            channel\<lparr>permissionOverwrites :=
              AList.delete (user_id userToManage) (permissionOverwrites channel)\<rparr>))"

subsection \<open>Claiming and closing\<close>

definition has_role :: "Member \<Rightarrow> string option \<Rightarrow> bool" where
  \<comment> \<open>\<open>member.roles.cache.has(id)\<close>; no role has the id \<open>null\<close>\<close>
  "has_role member role = (case role of None \<Rightarrow> False | Some r \<Rightarrow> r \<in> set (member_roles member))"





datatype message_kind =
  CloseLog | TranscriptCopy | ClosingNotice | LogsFailedWarning | LogsMissingWarning | CloseError

datatype effect =
    TranscriptGenerated string
  | ChannelSend string message_kind bool
  | UserSend string message_kind bool
  | ChannelDeleteScheduled string

text \<open>
  \<open>TranscriptGenerated c\<close>: a transcript of channel \<open>c\<close> is made. \<open>ChannelSend c k ok\<close>: a
  message of kind \<open>k\<close> is sent to channel \<open>c\<close>, and \<open>ok\<close> tells whether the send succeeded.
  \<open>UserSend u k ok\<close> is a direct message to user \<open>u\<close>. \<open>CloseLog\<close> and \<open>TranscriptCopy\<close>
  carry the transcript file. \<open>ChannelDeleteScheduled c\<close>: the timer that deletes the channel
  after five seconds is set.
\<close>

record close_env =
  close_by_command :: bool
  close_defer_ok :: bool
  close_config_ok :: bool
  transcript_ok :: bool
  user_fetch_ok :: bool
  logs_send_ok :: bool
  dm_ok :: bool
  notice_ok :: bool
  close_reply_ok :: bool

definition handleCloseTicket ::
  "close_env \<Rightarrow> Guild \<Rightarrow> GuildConfig \<Rightarrow> Channel \<Rightarrow> User \<Rightarrow> bool \<Rightarrow> reply \<times> effect list" where
  \<comment> \<open>a rejected \<open>deferReply\<close> leaves the handler by an exception: the caller of a command
      answers with the generic error, a button press gets no answer. The final reply is
      awaited before the deletion is scheduled: when it is rejected, the error is caught and
      the channel stays\<close>
  "handleCloseTicket env guild stored channel user silent =
     (let config = getGuildConfig (close_config_ok env) stored
      in if \<not> startsWith ''ticket-'' (channel_name channel) then (NotATicketChannel, [])
         else if \<not> close_defer_ok env
           then (if close_by_command env then UnknownError else NoReply, [])
         else if \<not> transcript_ok env then (CloseFailed, [])
         else
          (let ticketUserMatch = ticket_creator_db channel
           in if ticketUserMatch \<noteq> None \<and> \<not> user_fetch_ok env
              then (CloseFailed, [TranscriptGenerated (channel_id channel)])
              else
               (let logged =
                      (if truthy (logsChannelId config)
                       then (case cache_get guild (logsChannelId config) of
                               None \<Rightarrow> []
                             | Some logsChannel \<Rightarrow>
                                 [ChannelSend (channel_id logsChannel) CloseLog (logs_send_ok env)])
                       else []);
                    notified =
                      (case ticketUserMatch of
                         None \<Rightarrow> []
                       | Some ticketUser \<Rightarrow> [UserSend ticketUser TranscriptCopy (dm_ok env)]);
                    done = TranscriptGenerated (channel_id channel) # logged @ notified
                in if \<not> silent \<and> \<not> notice_ok env
                     then (CloseFailed,
                           done @ [ChannelSend (channel_id channel) ClosingNotice False])
                   else
                    (let sent = done @
                           (if silent then []
                            else [ChannelSend (channel_id channel) ClosingNotice True])
                     in if \<not> close_reply_ok env then (CloseFailed, sent)
                        else (Closed (channel_name channel),
                              sent @ [ChannelDeleteScheduled (channel_id channel)])))))"

section \<open>The \<open>config.json\<close> variant: tickets opened from the select menu\<close>

definition isTicketChannel :: "Channel \<Rightarrow> GuildConfig option \<Rightarrow> bool" where
  "isTicketChannel channel config =
     (case config of
        None \<Rightarrow> False
      | Some cfg \<Rightarrow>
          if \<not> truthy (categoryId cfg) then False
          else channel_type channel = GuildText \<and> parentId channel = categoryId cfg)"

definition isSupportUser :: "Member \<Rightarrow> GuildConfig option \<Rightarrow> bool" where
  "isSupportUser member config =
     (case config of
        None \<Rightarrow> False
      | Some cfg \<Rightarrow>
          if \<not> truthy (supportRoleId cfg) then False
          else has_role member (supportRoleId cfg) \<or> is_administrator member)"

definition getTicketCreatorId :: "Channel \<Rightarrow> string option" where
  "getTicketCreatorId channel =
     (if \<not> truthy (channel_topic channel) then None
      else match_digits ''User ID: '' (the (channel_topic channel)))"

definition is_panel :: "string \<Rightarrow> Message \<Rightarrow> bool" where
  \<comment> \<open>\<open>m.author.id === client.user.id && m.embeds[0]?.footer?.text.includes('Ticket ID:')\<close>\<close>
  "is_panel botId m =
     (message_author m = botId \<and>
      (case message_embeds m of
         [] \<Rightarrow> False
       | e # _ \<Rightarrow> (case embed_footer e of None \<Rightarrow> False
                    | Some t \<Rightarrow> str_includes ''Ticket ID:'' t)))"

definition getControlPanelMessage :: "bool \<Rightarrow> string \<Rightarrow> Channel \<Rightarrow> nat option" where
  \<comment> \<open>the position, in the channel's messages (oldest first), of the control panel: the first
      message if it is one, else the newest one among the last ten; \<open>null\<close> when there is
      none or a fetch fails\<close>
  "getControlPanelMessage fetch_ok botId channel =
     (if \<not> fetch_ok then None
      else case messages channel of
        [] \<Rightarrow> None
      | m # _ \<Rightarrow>
          if is_panel botId m then Some 0
          else (let n = length (messages channel)
                in find (\<lambda>i. is_panel botId (messages channel ! i)) (rev [n - 10 ..< n])))"

fun set_field :: "string \<Rightarrow> string \<Rightarrow> (string \<times> string) list \<Rightarrow> (string \<times> string) list" where
  \<comment> \<open>\<open>fields.find(f => f.name === name).value = v\<close>: the first field of that name\<close>
  "set_field name v [] = []"
| "set_field name v ((n, x) # fs) =
     (if n = name then (n, v) # fs else (n, x) # set_field name v fs)"

definition panel_field :: "Message \<Rightarrow> string \<Rightarrow> string option" where
  \<comment> \<open>\<open>embeds[0].fields.find(f => f.name === name)\<close>, its value\<close>
  "panel_field m name = (case message_embeds m of [] \<Rightarrow> None | e # _ \<Rightarrow> map_of (embed_fields e) name)"

definition update_panel ::
  "Message \<Rightarrow> (string \<times> string) list \<Rightarrow> nat \<Rightarrow> string list \<Rightarrow> Message" where
  \<comment> \<open>\<open>controlPanelMessage.edit({ embeds: [embed], components: [newRow] })\<close> after the named
      fields and the colour of the first embed are set\<close>
  "update_panel m changes colour row =
     m\<lparr>message_embeds :=
         [(hd (message_embeds m))
            \<lparr>embed_fields := fold (\<lambda>(n, v). set_field n v) changes (embed_fields (hd (message_embeds m))),
             embed_color := colour\<rparr>],
       message_components := [row]\<rparr>"

definition TICKET_COOLDOWN_MINUTES :: int where
  "TICKET_COOLDOWN_MINUTES = 3"

definition cooldown_of :: "(string \<rightharpoonup> int) \<Rightarrow> User \<Rightarrow> int option" where
  \<comment> \<open>\<open>client.ticketCooldowns.get(interaction.user.id)\<close> when it is truthy\<close>
  "cooldown_of ticketCooldowns user =
     (case ticketCooldowns (user_id user) of
        None \<Rightarrow> None
      | Some cooldownData \<Rightarrow> if cooldownData = 0 then None else Some cooldownData)"

definition existing_ticket_json :: "Guild \<Rightarrow> GuildConfig \<Rightarrow> User \<Rightarrow> Channel option" where
  \<comment> \<open>\<open>guild.channels.cache.find(c => c.parentId === config.categoryId && c.topic &&
      c.topic.includes(`User ID: ${interaction.user.id}`))\<close>\<close>
  "existing_ticket_json guild config user =
     find (\<lambda>c. parentId c = categoryId config \<and> truthy (channel_topic c) \<and>
               str_includes (''User ID: '' @ user_id user) (the (channel_topic c)))
       (channels guild)"

definition handleSelectMenuInteraction ::
  "(string \<rightharpoonup> int) \<Rightarrow> int \<Rightarrow> Guild \<Rightarrow> GuildConfig \<Rightarrow> User \<Rightarrow> string \<Rightarrow> string \<Rightarrow> reply" where
  \<comment> \<open>\<open>ticketCooldowns\<close> is the process-wide map, \<open>now\<close> the clock in milliseconds;
      \<open>Math.ceil(x / 1000)\<close> is \<open>- ((- x) div 1000)\<close>\<close>
  "handleSelectMenuInteraction ticketCooldowns now guild config user customId topicValue =
     (if customId \<noteq> ''ticket_panel_menu'' then NoReply
      else case cooldown_of ticketCooldowns user of
        Some cooldownData \<Rightarrow> CooldownActive (- ((- (cooldownData - now)) div 1000))
      | None \<Rightarrow>
         (case existing_ticket_json guild config user of
            Some existingTicket \<Rightarrow> DuplicateTicket (channel_id existingTicket)
          | None \<Rightarrow>
             (case find (\<lambda>t. topic_value t = topicValue) (ticketTopics config) of
                None \<Rightarrow> UnknownTopic
              | Some topic \<Rightarrow> ShowModal topicValue)))"

definition select_menu_interaction ::
  "(string \<rightharpoonup> int) \<Rightarrow> int \<Rightarrow> Guild \<Rightarrow> GuildConfig option \<Rightarrow> User \<Rightarrow> string \<Rightarrow> string \<Rightarrow> reply" where
  \<comment> \<open>the router's part for a select menu: without an entry for the guild the component
      is answered as outdated or not configured\<close>
  "select_menu_interaction ticketCooldowns now guild stored user customId topicValue =
     (case stored of
        None \<Rightarrow> NotConfigured
      | Some config \<Rightarrow>
          handleSelectMenuInteraction ticketCooldowns now guild config user customId topicValue)"

record modal_env =
  modal_create_ok :: bool
  modal_error_code :: nat
  modal_welcome_ok :: bool
  modal_channel_id :: string
  modal_bot_id :: string

definition modal_channel ::
  "modal_env \<Rightarrow> Guild \<Rightarrow> GuildConfig \<Rightarrow> User \<Rightarrow> TicketTopic \<Rightarrow> string \<Rightarrow> Channel" where
  \<comment> \<open>the argument of \<open>guild.channels.create\<close>\<close>
  "modal_channel env guild config user topic subject =
     \<lparr>channel_id = modal_channel_id env,
       channel_name = topic_value topic @ ''-'' @ take 15 (username user),
       channel_type = GuildText, parentId = categoryId config,
       channel_topic = Some (''Ticket for '' @ user_tag user @ '' (User ID: '' @
          user_id user @ ''). Subject: '' @ subject),
       permissionOverwrites =
         [(guild_id guild, [(ViewChannel, False)]),
          (user_id user, [(ViewChannel, True), (SendMessages, True),
                          (ReadMessageHistory, True)]),
          (case supportRoleId config of None \<Rightarrow> [] | Some r \<Rightarrow> r,
           [(ViewChannel, True), (SendMessages, True), (ReadMessageHistory, True)]),
          (modal_bot_id env, [(ViewChannel, True), (SendMessages, True),
                              (ManageChannels, True)])],
       messages = []\<rparr>"

definition control_panel :: "modal_env \<Rightarrow> User \<Rightarrow> string \<Rightarrow> string \<Rightarrow> Message" where
  \<comment> \<open>the welcome embed: the control panel with the staff buttons. Field names are written
      without their leading emoji\<close>
  "control_panel env user subject description =
     \<lparr>message_author = modal_bot_id env,
       message_embeds =
         [\<lparr>embed_fields =
             [(''User'', ''<@'' @ user_id user @ ''>''),
              (''Claimed By'', ''`Unclaimed`''),
              (''Status'', ''`Open`''),
              (''Subject'', subject),
              (''Description'', description)],
           embed_footer = Some (''Ticket ID: '' @ modal_channel_id env),
           embed_color = 0x5865F2\<rparr>],
       message_components = [[''ticket_claim'', ''ticket_lock'', ''ticket_close_start'']]\<rparr>"

definition handleModalSubmit ::
  "modal_env \<Rightarrow> (string \<rightharpoonup> int) \<Rightarrow> int \<Rightarrow> Guild \<Rightarrow> GuildConfig \<Rightarrow> User \<Rightarrow> string \<Rightarrow>
   string \<Rightarrow> string \<Rightarrow> reply \<times> Guild \<times> (string \<rightharpoonup> int)" where
  \<comment> \<open>\<open>now\<close> is the clock when the cooldown is set, after the channel is created and the
      welcome message sent\<close>
  "handleModalSubmit env ticketCooldowns now guild config user topicValue subject description =
     (case find (\<lambda>t. topic_value t = topicValue) (ticketTopics config) of
        None \<Rightarrow> (UnknownTopic, guild, ticketCooldowns)
      | Some topic \<Rightarrow>
         (let failure = (if modal_error_code env = 50013 then MissingPermission else CreateFailed)
          in if \<not> modal_create_ok env then (failure, guild, ticketCooldowns)
             else if \<not> modal_welcome_ok env
               then (failure,
                     guild\<lparr>channels := channels guild @
                       [modal_channel env guild config user topic subject]\<rparr>,
                     ticketCooldowns)
             else (TicketCreated (modal_channel_id env),
                   guild\<lparr>channels := channels guild @
                     [(modal_channel env guild config user topic subject)
                        \<lparr>messages := [control_panel env user subject description]\<rparr>]\<rparr>,
                   ticketCooldowns(user_id user \<mapsto> now + TICKET_COOLDOWN_MINUTES * 60 * 1000))))"


record panel_env =
  panel_fetch_ok :: bool
  perm_edit_ok :: bool
  panel_edit_ok :: bool
  panel_send_ok :: bool
  panel_bot_id :: string

definition claimed_panel :: "Message \<Rightarrow> string \<Rightarrow> Message" where
  \<comment> \<open>the panel as the claim edits it: claimer, status, yellow, and the row with the
      unclaim button\<close>
  "claimed_panel m mention =
     update_panel m [(''Claimed By'', mention), (''Status'', ''`In Progress`'')] 0xFEE75C
       [''ticket_unclaim'', ''ticket_lock'', ''ticket_close_start'']"

definition unclaimed_panel :: "Message \<Rightarrow> Message" where
  "unclaimed_panel m =
     update_panel m [(''Claimed By'', ''`Unclaimed`''), (''Status'', ''`Open`'')] 0x5865F2
       [''ticket_claim'', ''ticket_lock'', ''ticket_close_start'']"

definition lock_label :: "Message \<Rightarrow> bool \<Rightarrow> string" where
  \<comment> \<open>\<open>`Locked`\<close> on lock; on unlock
      \<open>(claimedBy === '`Unclaimed`') ? '`Open`' : '`In Progress`'\<close>\<close>
  "lock_label m lock =
     (if lock then ''`Locked`''
      else if panel_field m ''Claimed By'' = Some ''`Unclaimed`'' then ''`Open`''
      else ''`In Progress`'')"

definition lock_colour :: "Message \<Rightarrow> bool \<Rightarrow> nat" where
  "lock_colour m lock =
     (if lock then 0xED4245
      else if panel_field m ''Claimed By'' = Some ''`Unclaimed`'' then 0x5865F2
      else 0xFEE75C)"

definition relabelled_panel :: "Message \<Rightarrow> string \<Rightarrow> bool \<Rightarrow> Message" where
  \<comment> \<open>the panel as lock and unlock edit it: status, colour, and the row with the claim or
      unclaim button it had, the unlock or lock button, and the close button\<close>
  "relabelled_panel m claimButton lock =
     update_panel m [(''Status'', lock_label m lock)] (lock_colour m lock)
       [claimButton, (if lock then ''ticket_unlock'' else ''ticket_lock''),
        ''ticket_close_start'']"


definition handleUnclaimTicket :: "panel_env \<Rightarrow> Channel \<Rightarrow> User \<Rightarrow> reply \<times> Channel" where
  \<comment> \<open>the button is acknowledged without a reply; the notice goes to the channel\<close>
  "handleUnclaimTicket env channel user =
     (case getControlPanelMessage (panel_fetch_ok env) (panel_bot_id env) channel of
        None \<Rightarrow> (NoReply, channel)
      | Some i \<Rightarrow>
          if panel_field (messages channel ! i) ''Claimed By'' = None \<or>
             panel_field (messages channel ! i) ''Status'' = None
            then (UnknownError, channel)
          else if \<not> panel_edit_ok env then (UnknownError, channel)
          else if \<not> panel_send_ok env
            then (UnknownError,
                  channel\<lparr>messages := (messages channel)
                    [i := unclaimed_panel (messages channel ! i)]\<rparr>)
          else (NoReply,
                channel\<lparr>messages := (messages channel)
                  [i := unclaimed_panel (messages channel ! i)] @
                  [notice (panel_bot_id env) 0x5865F2]\<rparr>))"

definition claim_button_of :: "Message \<Rightarrow> string option option" where
  \<comment> \<open>\<open>components[0].components.find(c => c.customId.includes('claim'))\<close>; the outer \<open>None\<close>
      when the message has no row, which raises\<close>
  "claim_button_of m =
     (case message_components m of
        [] \<Rightarrow> None
      | row # _ \<Rightarrow> Some (find (\<lambda>c. str_includes ''claim'' c) row))"

definition handleLockTicket_json :: "panel_env \<Rightarrow> Channel \<Rightarrow> bool \<Rightarrow> reply \<times> Channel" where
  \<comment> \<open>inside the \<open>try\<close>, a failure after the permission edit leaves that edit in place\<close>
  "handleLockTicket_json env channel lock =
     (case getTicketCreatorId channel of
        None \<Rightarrow> (CreatorNotFound, channel)
      | Some creatorId \<Rightarrow>
         (case getControlPanelMessage (panel_fetch_ok env) (panel_bot_id env) channel of
            None \<Rightarrow> (ControlPanelNotFound, channel)
          | Some i \<Rightarrow>
             (case claim_button_of (messages channel ! i) of
                None \<Rightarrow> (UnknownError, channel)
              | Some None \<Rightarrow> (ClaimButtonNotFound, channel)
              | Some (Some claimButton) \<Rightarrow>
                  if \<not> perm_edit_ok env then (LockFailed, channel)
                  else if (\<not> lock \<and> panel_field (messages channel ! i) ''Claimed By'' = None) \<or>
                          panel_field (messages channel ! i) ''Status'' = None \<or>
                          \<not> panel_edit_ok env
                    then (LockFailed,
                          channel\<lparr>permissionOverwrites :=
                            edit_overwrite creatorId [(SendMessages, \<not> lock)]
                              (permissionOverwrites channel)\<rparr>)
                  else if \<not> panel_send_ok env
                    then (LockFailed,
                          channel\<lparr>permissionOverwrites :=
                              edit_overwrite creatorId [(SendMessages, \<not> lock)]
                                (permissionOverwrites channel),
                            messages := (messages channel)
                              [i := relabelled_panel (messages channel ! i) claimButton lock]\<rparr>)
                  else ((if lock then Locked creatorId else Unlocked creatorId),
                        channel\<lparr>permissionOverwrites :=
                            edit_overwrite creatorId [(SendMessages, \<not> lock)]
                              (permissionOverwrites channel),
                          messages := (messages channel)
                            [i := relabelled_panel (messages channel ! i) claimButton lock] @
                            [notice (panel_bot_id env)
                               (if lock then 0xED4245 else 0x57F287)]\<rparr>))))"



section \<open>Notions the properties are stated with\<close>

definition isConfigured :: "GuildConfig \<Rightarrow> bool" where
  \<comment> \<open>\<open>config.categoryId && config.supportRoleId\<close>\<close>
  "isConfigured config = (truthy (categoryId config) \<and> truthy (supportRoleId config))"



definition text_channel :: "string \<Rightarrow> string \<Rightarrow> string option \<Rightarrow> string option \<Rightarrow> Channel" where
  \<comment> \<open>a text channel with no permission overwrites and no messages\<close>
  "text_channel i name parent topic =
     \<lparr>channel_id = i, channel_name = name, channel_type = GuildText, parentId = parent,
       channel_topic = topic, permissionOverwrites = [], messages = []\<rparr>"

definition category_channel :: "string \<Rightarrow> string \<Rightarrow> Channel" where
  "category_channel i name =
     \<lparr>channel_id = i, channel_name = name, channel_type = GuildCategory, parentId = None,
       channel_topic = None, permissionOverwrites = [], messages = []\<rparr>"

definition label_matches_claim :: "Message \<Rightarrow> bool" where
  \<comment> \<open>the status of a panel is the one that goes with its claimer field: \<open>Open\<close> for
      \<open>Unclaimed\<close>, \<open>In Progress\<close> otherwise\<close>
  "label_matches_claim m =
     (panel_field m ''Status'' =
        Some (if panel_field m ''Claimed By'' = Some ''`Unclaimed`'' then ''`Open`''
              else ''`In Progress`''))"

section \<open>Properties of the strings\<close>

lemma replace_runs_empty: "replace_runs P [] s = filter (\<lambda>c. \<not> P c) s"
proof (induction "length s" arbitrary: s rule: less_induct)
  case less
  show ?case
  proof (cases s)
    case Nil
    then show ?thesis by simp
  next
    case (Cons c cs)
    have "length (dropWhile P cs) < length s"
      using Cons by (simp add: less_Suc_eq_le length_dropWhile_le)
    then have ih: "replace_runs P [] (dropWhile P cs) = filter (\<lambda>c. \<not> P c) (dropWhile P cs)"
      using less by blast
    have ih2: "replace_runs P [] cs = filter (\<lambda>c. \<not> P c) cs"
      using less Cons by simp
    have dw: "filter (\<lambda>c. \<not> P c) (dropWhile P cs) = filter (\<lambda>c. \<not> P c) cs"
      by (induction cs) auto
    show ?thesis using Cons ih ih2 dw by simp
  qed
qed

lemma sanitizeValue_filter: "sanitizeValue raw = filter isKeyChar (toLowerCase raw)"
  by (simp add: sanitizeValue_def replace_runs_empty)

lemma cleanValue_filter:
  "cleanValue raw = filter isKeyChar (replace_runs isWhitespace ''_'' (toLowerCase raw))"
  by (simp add: cleanValue_def replace_runs_empty)

lemmas char_defs = isDigit_def isLowerAZ_def isKeyChar_def isAlnum_def isWhitespace_def
  isUpper_def toLowerChar_def toLowerCase_def

section \<open>The topic registry\<close>

lemma find_None_values: "(find (\<lambda>t. topic_value t = v) ts = None) = (v \<notin> set (topic_values ts))"
  by (auto simp: find_None_iff topic_values_def)

lemma list_ex_values: "list_ex (\<lambda>t. topic_value t = v) ts = (v \<in> set (topic_values ts))"
  by (auto simp: list_ex_iff topic_values_def)

lemma distinct_values_filter:
  "distinct (topic_values ts) \<Longrightarrow> distinct (topic_values (filter P ts))"
  by (simp add: topic_values_def distinct_map_filter)

lemma distinct_values_snoc:
  "distinct (topic_values ts) \<Longrightarrow> v \<notin> set (topic_values ts) \<Longrightarrow>
   distinct (topic_values (ts @
     [\<lparr>topic_label = l, topic_value = v, topic_description = d, topic_emoji = e\<rparr>]))"
  by (simp add: topic_values_def)

lemma filter_absent_same:
  "v \<notin> set (topic_values ts) \<Longrightarrow> filter (\<lambda>t. topic_value t \<noteq> v) ts = ts"
  by (induction ts) (auto simp: topic_values_def)

subsection \<open>Uniqueness of the topic keys\<close>

lemma db_step_distinct:
  assumes "distinct (topic_values (ticketTopics stored))"
  shows "distinct (topic_values (ticketTopics (snd (ticketTopicCommand_db env stored sub))))"
proof (cases sub)
  case (Add l raw d e)
  then show ?thesis
    using assms
    by (auto simp: ticketTopicCommand_db_def getGuildConfig_def setGuildConfig_def Let_def
          list_ex_values intro!: distinct_values_snoc) (simp add: topic_values_def)+
next
  case (Remove v)
  then show ?thesis
    using assms
    by (auto simp: ticketTopicCommand_db_def getGuildConfig_def setGuildConfig_def Let_def
          intro!: distinct_values_filter)
next
  case ListTopics
  then show ?thesis using assms by (simp add: ticketTopicCommand_db_def Let_def)
qed

lemma json_step_distinct:
  assumes "distinct (topic_values (topics_of stored))"
  shows "distinct (topic_values (topics_of (snd (ticketTopicCommand_json w stored sub))))"
proof (cases stored)
  case None
  then show ?thesis by (simp add: ticketTopicCommand_json_def topics_of_def topic_values_def)
next
  case (Some g)
  show ?thesis
  proof (cases sub)
    case (Add l raw d e)
    then show ?thesis
      using assms Some
      by (auto simp: ticketTopicCommand_json_def writeConfig_def Let_def topics_of_def
            find_None_values intro!: distinct_values_snoc)
  next
    case (Remove v)
    then show ?thesis
      using assms Some
      by (auto simp: ticketTopicCommand_json_def writeConfig_def Let_def topics_of_def
            intro!: distinct_values_filter)
  next
    case ListTopics
    then show ?thesis using assms Some
      by (simp add: ticketTopicCommand_json_def topics_of_def)
  qed
qed

lemma run_db_distinct:
  "distinct (topic_values (ticketTopics stored)) \<Longrightarrow>
   distinct (topic_values (ticketTopics (run_db stored ops)))"
  by (induction stored ops rule: run_db.induct) (auto intro: db_step_distinct)

lemma run_json_distinct:
  "distinct (topic_values (topics_of stored)) \<Longrightarrow>
   distinct (topic_values (topics_of (run_json stored ops)))"
  by (induction stored ops rule: run_json.induct) (auto intro: json_step_distinct)

lemma db_add_duplicate:
  "sanitizeValue raw \<in> set (topic_values (ticketTopics stored)) \<Longrightarrow> read_ok env \<Longrightarrow>
   ticketTopicCommand_db env stored (Add l raw d e) =
     (DuplicateTopicKey (sanitizeValue raw), stored)"
  by (simp add: ticketTopicCommand_db_def getGuildConfig_def Let_def list_ex_values)

lemma db_remove_absent:
  "v \<notin> set (topic_values (ticketTopics stored)) \<Longrightarrow>
   ticketTopicCommand_db env stored (Remove v) = (TopicNotFound v, stored)"
  by (simp add: ticketTopicCommand_db_def getGuildConfig_def Let_def filter_absent_same)

lemma json_add_duplicate:
  "truthy (categoryId g) \<Longrightarrow> cleanValue raw \<noteq> [] \<Longrightarrow>
   cleanValue raw \<in> set (topic_values (ticketTopics g)) \<Longrightarrow>
   ticketTopicCommand_json w (Some g) (Add l raw d e) =
     (DuplicateTopicKey (cleanValue raw), Some g)"
  by (simp add: ticketTopicCommand_json_def Let_def find_None_values)

lemma json_remove_absent:
  "truthy (categoryId g) \<Longrightarrow> v \<notin> set (topic_values (ticketTopics g)) \<Longrightarrow>
   ticketTopicCommand_json w (Some g) (Remove v) = (TopicNotFound v, Some g)"
  by (simp add: ticketTopicCommand_json_def Let_def filter_absent_same)

text \<open>
  Claim C3. In both variants the topic keys of a guild stay pairwise distinct through any
  sequence of \<open>add\<close>, \<open>remove\<close> and \<open>list\<close> commands, whatever the outcome of the reads and
  writes in between. An \<open>add\<close> whose cleaned key is already present is answered with
  \<open>DuplicateTopicKey\<close>, and a \<open>remove\<close> of an absent key with \<open>TopicNotFound\<close>; both leave
  the stored configuration as it was. (In the \<open>config.json\<close> variant the guild must be
  configured and the key non-empty, the two checks that come first there; in the MongoDB
  variant the duplicate is seen when the configuration could be read.)
\<close>

theorem topic_values_unique:
  assumes "distinct (topic_values (ticketTopics c))"
    and "distinct (topic_values (topics_of j))"
  shows "distinct (topic_values (ticketTopics (run_db c ops))) \<and>
         distinct (topic_values (topics_of (run_json j jops))) \<and>
         (read_ok env \<and> sanitizeValue raw \<in> set (topic_values (ticketTopics c)) \<longrightarrow>
            ticketTopicCommand_db env c (Add l raw d e) =
              (DuplicateTopicKey (sanitizeValue raw), c)) \<and>
         (v \<notin> set (topic_values (ticketTopics c)) \<longrightarrow>
            ticketTopicCommand_db env c (Remove v) = (TopicNotFound v, c)) \<and>
         (truthy (categoryId g) \<and> cleanValue raw \<noteq> [] \<and>
          cleanValue raw \<in> set (topic_values (ticketTopics g)) \<longrightarrow>
            ticketTopicCommand_json w (Some g) (Add l raw d e) =
              (DuplicateTopicKey (cleanValue raw), Some g)) \<and>
         (truthy (categoryId g) \<and> v \<notin> set (topic_values (ticketTopics g)) \<longrightarrow>
            ticketTopicCommand_json w (Some g) (Remove v) = (TopicNotFound v, Some g))"
  using assms
  by (simp add: run_db_distinct run_json_distinct db_add_duplicate db_remove_absent
        json_add_duplicate json_remove_absent)

text \<open>
  The theorem at a guild with the topics \<open>a\<close> and \<open>b\<close>: a run that adds \<open>c\<close>, tries \<open>a\<close>
  again and removes \<open>a\<close>; the duplicate \<open>A\<close> and the absent \<open>zz\<close>.
\<close>

theorem topic_values_unique_witness:
  "let cfg = \<lparr>guildId = ''1'', categoryId = Some ''2'', logsChannelId = Some ''3'',
                supportRoleId = Some ''4'',
                ticketTopics = map (\<lambda>k. \<lparr>topic_label = [k], topic_value = [k],
                   topic_description = ''d'', topic_emoji = None\<rparr>) ''ab''\<rparr>;
       ok = \<lparr>read_ok = True, write_ok = True\<rparr>;
       ops = [Add ''C'' ''c!'' (Some ''d'') None, Add ''A'' ''a'' (Some ''d'') None, Remove ''a'']
   in distinct (topic_values (ticketTopics cfg)) \<and>
      distinct (topic_values (topics_of (Some cfg))) \<and>
      topic_values (ticketTopics (run_db cfg (map (Pair ok) ops))) = [''b'', ''c''] \<and>
      distinct (topic_values (ticketTopics (run_db cfg (map (Pair ok) ops)))) \<and>
      distinct (topic_values (topics_of (run_json (Some cfg) (map (Pair True) ops)))) \<and>
      ticketTopicCommand_db ok cfg (Add ''A'' ''A'' None None) = (DuplicateTopicKey ''a'', cfg) \<and>
      ticketTopicCommand_db ok cfg (Remove ''zz'') = (TopicNotFound ''zz'', cfg) \<and>
      ticketTopicCommand_json True (Some cfg) (Add ''A'' ''A'' None None) =
        (DuplicateTopicKey ''a'', Some cfg) \<and>
      ticketTopicCommand_json True (Some cfg) (Remove ''zz'') = (TopicNotFound ''zz'', Some cfg)"
  using topic_values_unique
    [where c = "\<lparr>guildId = ''1'', categoryId = Some ''2'', logsChannelId = Some ''3'',
                supportRoleId = Some ''4'',
                ticketTopics = map (\<lambda>k. \<lparr>topic_label = [k], topic_value = [k],
                   topic_description = ''d'', topic_emoji = None\<rparr>) ''ab''\<rparr>"
       and j = "Some \<lparr>guildId = ''1'', categoryId = Some ''2'', logsChannelId = Some ''3'',
                supportRoleId = Some ''4'',
                ticketTopics = map (\<lambda>k. \<lparr>topic_label = [k], topic_value = [k],
                   topic_description = ''d'', topic_emoji = None\<rparr>) ''ab''\<rparr>"
       and g = "\<lparr>guildId = ''1'', categoryId = Some ''2'', logsChannelId = Some ''3'',
                supportRoleId = Some ''4'',
                ticketTopics = map (\<lambda>k. \<lparr>topic_label = [k], topic_value = [k],
                   topic_description = ''d'', topic_emoji = None\<rparr>) ''ab''\<rparr>"
       and env = "\<lparr>read_ok = True, write_ok = True\<rparr>" and w = True
       and raw = "''A''" and v = "''zz''" and l = "''A''" and d = None and e = None
       and ops = "map (Pair \<lparr>read_ok = True, write_ok = True\<rparr>)
                    [Add ''C'' ''c!'' (Some ''d'') None, Add ''A'' ''a'' (Some ''d'') None, Remove ''a'']"
       and jops = "map (Pair True)
                    [Add ''C'' ''c!'' (Some ''d'') None, Add ''A'' ''a'' (Some ''d'') None, Remove ''a'']"]
  by (simp add: Let_def topic_values_def topics_of_def ticketTopicCommand_db_def
        ticketTopicCommand_json_def getGuildConfig_def setGuildConfig_def writeConfig_def
        sanitizeValue_def cleanValue_def char_defs truthy_def or_null_def)

subsection \<open>The limit of 25 topics\<close>

lemma json_step_length:
  assumes "length (topics_of stored) \<le> 25"
  shows "length (topics_of (snd (ticketTopicCommand_json w stored sub))) \<le> 25"
proof (cases stored)
  case None
  then show ?thesis by (simp add: ticketTopicCommand_json_def topics_of_def)
next
  case (Some g)
  have le: "length (filter P (ticketTopics g)) \<le> 25" for P
    using assms Some le_trans[OF length_filter_le] by (fastforce simp: topics_of_def)
  show ?thesis
  proof (cases sub)
    case (Add l raw d e)
    then show ?thesis using assms Some
      by (auto simp: ticketTopicCommand_json_def writeConfig_def Let_def topics_of_def)
  next
    case (Remove v)
    then show ?thesis using assms Some le
      by (auto simp: ticketTopicCommand_json_def writeConfig_def Let_def topics_of_def)
  next
    case ListTopics
    then show ?thesis using assms Some by (simp add: ticketTopicCommand_json_def topics_of_def)
  qed
qed

lemma run_json_length:
  "length (topics_of stored) \<le> 25 \<Longrightarrow> length (topics_of (run_json stored ops)) \<le> 25"
  by (induction stored ops rule: run_json.induct) (auto intro: json_step_length)

lemma json_add_full:
  assumes "25 \<le> length (topics_of stored)"
  shows "ticketTopicCommand_json w stored (Add l raw d e) =
      ((case stored of None \<Rightarrow> NotConfigured | Some g \<Rightarrow>
          if \<not> truthy (categoryId g) then NotConfigured
          else if cleanValue raw = [] then InvalidTopicKey raw
          else if cleanValue raw \<in> set (topic_values (ticketTopics g))
            then DuplicateTopicKey (cleanValue raw)
          else TopicLimitExceeded), stored)"
  using assms
  by (auto simp: ticketTopicCommand_json_def Let_def topics_of_def find_None_values
        split: option.splits)

text \<open>
  The MongoDB variant has no such check: with 25 topics stored, a 26th is added.
\<close>

lemma db_accepts_26th_topic:
  "length (ticketTopics (snd (ticketTopicCommand_db \<lparr>read_ok = True, write_ok = True\<rparr>
      \<lparr>guildId = ''1'', categoryId = Some ''2'', logsChannelId = Some ''3'',
        supportRoleId = Some ''4'',
        ticketTopics = map topic_with_key
          [''a'', ''b'', ''c'', ''d'', ''e'', ''f'', ''g'', ''h'', ''i'', ''j'', ''k'', ''l'',
           ''m'', ''n'', ''o'', ''p'', ''q'', ''r'', ''s'', ''t'', ''u'', ''v'', ''w'', ''x'',
           ''y'']\<rparr>
      (Add ''Z'' ''z'' (Some ''d'') None)))) = 26"
  by (simp add: ticketTopicCommand_db_def Let_def sanitizeValue_def char_defs
        getGuildConfig_def setGuildConfig_def topic_with_key_def)

text \<open>
  Claim C2, as amended. In the \<open>config.json\<close> variant, once 25 topics (or more) are stored
  every \<open>add\<close> fails and leaves the configuration as it was; the error is the first that
  applies of \<open>NotConfigured\<close>, \<open>InvalidTopicKey\<close> (empty cleaned key), \<open>DuplicateTopicKey\<close>
  (key already present) and \<open>TopicLimitExceeded\<close>. A list of at most 25 topics has at most
  25 topics after any sequence of commands.
\<close>

theorem topic_limit_json:
  "(25 \<le> length (topics_of stored) \<longrightarrow>
      ticketTopicCommand_json w stored (Add l raw d e) =
        ((case stored of None \<Rightarrow> NotConfigured | Some g \<Rightarrow>
            if \<not> truthy (categoryId g) then NotConfigured
            else if cleanValue raw = [] then InvalidTopicKey raw
            else if cleanValue raw \<in> set (topic_values (ticketTopics g))
              then DuplicateTopicKey (cleanValue raw)
            else TopicLimitExceeded), stored)) \<and>
   (length (topics_of stored) \<le> 25 \<longrightarrow> length (topics_of (run_json stored ops)) \<le> 25)"
  by (simp add: json_add_full run_json_length)

text \<open>
  The theorem at a guild that holds the 25 topics \<open>a\<close> to \<open>y\<close>: the fresh key \<open>z\<close> is
  refused with \<open>TopicLimitExceeded\<close>, and after removing \<open>a\<close> and adding \<open>z\<close> and \<open>zz\<close>
  the list has 25 entries.
\<close>

theorem topic_limit_json_witness:
  "let stored = Some \<lparr>guildId = ''1'', categoryId = Some ''2'', logsChannelId = Some ''3'',
         supportRoleId = Some ''4'',
         ticketTopics = map topic_with_key
          [''a'', ''b'', ''c'', ''d'', ''e'', ''f'', ''g'', ''h'', ''i'', ''j'', ''k'', ''l'',
           ''m'', ''n'', ''o'', ''p'', ''q'', ''r'', ''s'', ''t'', ''u'', ''v'', ''w'', ''x'',
           ''y'']\<rparr>;
       ops = map (Pair True) [Remove ''a'', Add ''Z'' ''z'' None None, Add ''Z'' ''zz'' None None]
   in length (topics_of stored) = 25 \<and>
      ticketTopicCommand_json True stored (Add ''Z'' ''z'' None None) =
        (TopicLimitExceeded, stored) \<and>
      length (topics_of (run_json stored ops)) = 25"
  using topic_limit_json
    [where stored = "Some \<lparr>guildId = ''1'', categoryId = Some ''2'', logsChannelId = Some ''3'',
         supportRoleId = Some ''4'',
         ticketTopics = map topic_with_key
          [''a'', ''b'', ''c'', ''d'', ''e'', ''f'', ''g'', ''h'', ''i'', ''j'', ''k'', ''l'',
           ''m'', ''n'', ''o'', ''p'', ''q'', ''r'', ''s'', ''t'', ''u'', ''v'', ''w'', ''x'',
           ''y'']\<rparr>"
       and w = True and l = "''Z''" and raw = "''z''" and d = None and e = None
       and ops = "map (Pair True)
          [Remove ''a'', Add ''Z'' ''z'' None None, Add ''Z'' ''zz'' None None]"]
  by (simp add: Let_def topics_of_def topic_values_def ticketTopicCommand_json_def
        writeConfig_def cleanValue_def char_defs truthy_def or_null_def topic_with_key_def)

text \<open>
  The claim as stated fails in the \<open>config.json\<close> variant, where the duplicate check comes
  before the limit check: with the 25 topics \<open>a\<close> to \<open>y\<close> stored, adding \<open>a\<close> again is
  answered with \<open>DuplicateTopicKey\<close>, not with \<open>TopicLimitExceeded\<close>.
\<close>

theorem topic_limit_counterexample:
  "length (ticketTopics \<lparr>guildId = ''1'', categoryId = Some ''2'', logsChannelId = Some ''3'',
         supportRoleId = Some ''4'',
         ticketTopics = map topic_with_key
          [''a'', ''b'', ''c'', ''d'', ''e'', ''f'', ''g'', ''h'', ''i'', ''j'', ''k'', ''l'',
           ''m'', ''n'', ''o'', ''p'', ''q'', ''r'', ''s'', ''t'', ''u'', ''v'', ''w'', ''x'',
           ''y'']\<rparr>) = 25 \<and>
   fst (ticketTopicCommand_json True
      (Some \<lparr>guildId = ''1'', categoryId = Some ''2'', logsChannelId = Some ''3'',
         supportRoleId = Some ''4'',
         ticketTopics = map topic_with_key
          [''a'', ''b'', ''c'', ''d'', ''e'', ''f'', ''g'', ''h'', ''i'', ''j'', ''k'', ''l'',
           ''m'', ''n'', ''o'', ''p'', ''q'', ''r'', ''s'', ''t'', ''u'', ''v'', ''w'', ''x'',
           ''y'']\<rparr>)
      (Add ''A'' ''a'' None None)) = DuplicateTopicKey ''a'' \<and>
   DuplicateTopicKey ''a'' \<noteq> TopicLimitExceeded"
  by (simp add: ticketTopicCommand_json_def Let_def cleanValue_def char_defs truthy_def
        topic_with_key_def)

subsection \<open>The cleaned topic key\<close>

lemma json_added:
  assumes "ticketTopicCommand_json w stored (Add l raw d e) = (TopicAdded l' v, stored')"
  shows "v = cleanValue raw \<and> v \<noteq> [] \<and> (\<forall>c \<in> set v. isKeyChar c) \<and>
         (w \<longrightarrow> topic_values (topics_of stored') = topic_values (topics_of stored) @ [v])"
  using assms
  by (auto simp: ticketTopicCommand_json_def Let_def topics_of_def writeConfig_def
        cleanValue_filter topic_values_def split: option.splits if_splits)

lemma json_invalid:
  "truthy (categoryId g) \<Longrightarrow> cleanValue raw = [] \<Longrightarrow>
   ticketTopicCommand_json w (Some g) (Add l raw d e) = (InvalidTopicKey raw, Some g)"
  by (simp add: ticketTopicCommand_json_def Let_def)

lemma db_added:
  assumes "ticketTopicCommand_db env stored (Add l raw d e) = (TopicAdded l' v, stored')"
  shows "v = sanitizeValue raw \<and> (\<forall>c \<in> set v. isKeyChar c) \<and>
         (read_ok env \<and> write_ok env \<longrightarrow>
            topic_values (ticketTopics stored') = topic_values (ticketTopics stored) @ [v])"
  using assms
  by (auto simp: ticketTopicCommand_db_def Let_def setGuildConfig_def getGuildConfig_def
        sanitizeValue_filter topic_values_def split: option.splits if_splits)

text \<open>
  The MongoDB variant does not test the cleaned key: the value \<open>!!!\<close> is added with the
  empty key.
\<close>

lemma db_accepts_empty_key:
  "ticketTopicCommand_db \<lparr>read_ok = True, write_ok = True\<rparr>
     \<lparr>guildId = ''1'', categoryId = None, logsChannelId = None, supportRoleId = None,
       ticketTopics = []\<rparr>
     (Add ''Bang'' ''!!!'' (Some ''d'') None) =
   (TopicAdded ''Bang'' [],
    \<lparr>guildId = ''1'', categoryId = None, logsChannelId = None, supportRoleId = None,
      ticketTopics = [\<lparr>topic_label = ''Bang'', topic_value = [], topic_description = ''d'',
                       topic_emoji = None\<rparr>]\<rparr>)"
  by (simp add: ticketTopicCommand_db_def Let_def sanitizeValue_def char_defs
        getGuildConfig_def setGuildConfig_def or_null_def truthy_def)

text \<open>
  Claim C4, as amended. The MongoDB variant lower-cases the value and strips every
  character outside \<open>[a-z0-9_]\<close>. The \<open>config.json\<close> variant lower-cases it, turns every run
  of whitespace into one underscore, and then strips every character outside
  \<open>[a-z0-9_]\<close>. In both, the key of a successful \<open>add\<close> is the cleaned value, it has only
  characters of \<open>[a-z0-9_]\<close>, and it is the key appended to the stored list when the
  configuration is read and written. In the \<open>config.json\<close> variant the key of a successful
  \<open>add\<close> is not empty, and a configured guild's \<open>add\<close> whose cleaned value is empty fails
  with \<open>InvalidTopicKey\<close> and stores nothing.
\<close>

theorem topic_key_sanitized:
  "sanitizeValue raw = filter isKeyChar (toLowerCase raw) \<and>
   cleanValue raw = filter isKeyChar (replace_runs isWhitespace ''_'' (toLowerCase raw)) \<and>
   (ticketTopicCommand_json w stored (Add l raw d e) = (TopicAdded l' v, stored') \<longrightarrow>
      v = cleanValue raw \<and> v \<noteq> [] \<and> (\<forall>c \<in> set v. isKeyChar c) \<and>
      (w \<longrightarrow> topic_values (topics_of stored') = topic_values (topics_of stored) @ [v])) \<and>
   (truthy (categoryId g) \<and> cleanValue raw = [] \<longrightarrow>
      ticketTopicCommand_json w (Some g) (Add l raw d e) = (InvalidTopicKey raw, Some g)) \<and>
   (ticketTopicCommand_db env c (Add l raw d e) = (TopicAdded l' v, c') \<longrightarrow>
      v = sanitizeValue raw \<and> (\<forall>c \<in> set v. isKeyChar c) \<and>
      (read_ok env \<and> write_ok env \<longrightarrow>
         topic_values (ticketTopics c') = topic_values (ticketTopics c) @ [v]))"
proof (intro conjI)
  show "sanitizeValue raw = filter isKeyChar (toLowerCase raw)"
    by (rule sanitizeValue_filter)
  show "cleanValue raw = filter isKeyChar (replace_runs isWhitespace ''_'' (toLowerCase raw))"
    by (rule cleanValue_filter)
  show "ticketTopicCommand_json w stored (Add l raw d e) = (TopicAdded l' v, stored') \<longrightarrow>
      v = cleanValue raw \<and> v \<noteq> [] \<and> (\<forall>c \<in> set v. isKeyChar c) \<and>
      (w \<longrightarrow> topic_values (topics_of stored') = topic_values (topics_of stored) @ [v])"
    using json_added[of w stored l raw d e l' v stored'] by blast
  show "truthy (categoryId g) \<and> cleanValue raw = [] \<longrightarrow>
      ticketTopicCommand_json w (Some g) (Add l raw d e) = (InvalidTopicKey raw, Some g)"
    using json_invalid[of g raw w l d e] by blast
  show "ticketTopicCommand_db env c (Add l raw d e) = (TopicAdded l' v, c') \<longrightarrow>
      v = sanitizeValue raw \<and> (\<forall>c \<in> set v. isKeyChar c) \<and>
      (read_ok env \<and> write_ok env \<longrightarrow>
         topic_values (ticketTopics c') = topic_values (ticketTopics c) @ [v])"
    using db_added[of env c l raw d e l' v c'] by blast
qed

text \<open>
  The theorem at the value \<open>Bug Report!\<close>, added to a configured guild with no topics
  (key \<open>bug_report\<close> in the \<open>config.json\<close> variant, \<open>bugreport\<close> in the MongoDB variant),
  and at the value \<open>!!!\<close>, which the \<open>config.json\<close> variant refuses.
\<close>

theorem topic_key_sanitized_witness:
  "ticketTopicCommand_json True
     (Some \<lparr>guildId = ''1'', categoryId = Some ''2'', logsChannelId = Some ''3'',
        supportRoleId = Some ''4'', ticketTopics = []\<rparr>)
     (Add ''Bugs'' ''Bug Report!'' None None) =
     (TopicAdded ''Bugs'' ''bug_report'',
      Some \<lparr>guildId = ''1'', categoryId = Some ''2'', logsChannelId = Some ''3'',
        supportRoleId = Some ''4'', ticketTopics = [\<lparr>topic_label = ''Bugs'',
          topic_value = ''bug_report'', topic_description = ''Click to open a ticket.'',
          topic_emoji = None\<rparr>]\<rparr>) \<and>
   ticketTopicCommand_db \<lparr>read_ok = True, write_ok = True\<rparr>
     \<lparr>guildId = ''1'', categoryId = Some ''2'', logsChannelId = Some ''3'',
        supportRoleId = Some ''4'', ticketTopics = []\<rparr>
     (Add ''Bugs'' ''Bug Report!'' None None) =
     (TopicAdded ''Bugs'' ''bugreport'',
      \<lparr>guildId = ''1'', categoryId = Some ''2'', logsChannelId = Some ''3'',
        supportRoleId = Some ''4'', ticketTopics = [\<lparr>topic_label = ''Bugs'',
          topic_value = ''bugreport'', topic_description = [], topic_emoji = None\<rparr>]\<rparr>) \<and>
   cleanValue ''Bug Report!'' = ''bug_report'' \<and>
   sanitizeValue ''Bug Report!'' = ''bugreport'' \<and>
   list_all isKeyChar ''bug_report'' \<and>
   cleanValue ''!!!'' = [] \<and>
   ticketTopicCommand_json True
     (Some \<lparr>guildId = ''1'', categoryId = Some ''2'', logsChannelId = Some ''3'',
        supportRoleId = Some ''4'', ticketTopics = []\<rparr>)
     (Add ''Bang'' ''!!!'' None None) =
     (InvalidTopicKey ''!!!'',
      Some \<lparr>guildId = ''1'', categoryId = Some ''2'', logsChannelId = Some ''3'',
        supportRoleId = Some ''4'', ticketTopics = []\<rparr>)"
  using topic_key_sanitized
    [where raw = "''Bug Report!''" and w = True and l = "''Bugs''" and d = None and e = None
       and l' = "''Bugs''" and v = "''bug_report''"
       and stored = "Some \<lparr>guildId = ''1'', categoryId = Some ''2'', logsChannelId = Some ''3'', supportRoleId = Some ''4'', ticketTopics = []\<rparr>"
       and stored' = "Some (\<lparr>guildId = ''1'', categoryId = Some ''2'', logsChannelId = Some ''3'', supportRoleId = Some ''4'', ticketTopics = []\<rparr>\<lparr>ticketTopics := [\<lparr>topic_label = ''Bugs'', topic_value = ''bug_report'',
            topic_description = ''Click to open a ticket.'', topic_emoji = None\<rparr>]\<rparr>)"
       and g = "\<lparr>guildId = ''1'', categoryId = Some ''2'', logsChannelId = Some ''3'', supportRoleId = Some ''4'', ticketTopics = []\<rparr>" and env = "\<lparr>read_ok = True, write_ok = True\<rparr>" and c = "\<lparr>guildId = ''1'', categoryId = Some ''2'', logsChannelId = Some ''3'', supportRoleId = Some ''4'', ticketTopics = []\<rparr>" and c' = "\<lparr>guildId = ''1'', categoryId = Some ''2'', logsChannelId = Some ''3'', supportRoleId = Some ''4'', ticketTopics = []\<rparr>"]
    topic_key_sanitized
    [where raw = "''Bug Report!''" and w = True and l = "''Bugs''" and d = None and e = None
       and l' = "''Bugs''" and v = "''bugreport''"
       and stored = "Some \<lparr>guildId = ''1'', categoryId = Some ''2'', logsChannelId = Some ''3'', supportRoleId = Some ''4'', ticketTopics = []\<rparr>" and stored' = "Some \<lparr>guildId = ''1'', categoryId = Some ''2'', logsChannelId = Some ''3'', supportRoleId = Some ''4'', ticketTopics = []\<rparr>" and g = "\<lparr>guildId = ''1'', categoryId = Some ''2'', logsChannelId = Some ''3'', supportRoleId = Some ''4'', ticketTopics = []\<rparr>"
       and env = "\<lparr>read_ok = True, write_ok = True\<rparr>"
       and c = "\<lparr>guildId = ''1'', categoryId = Some ''2'', logsChannelId = Some ''3'', supportRoleId = Some ''4'', ticketTopics = []\<rparr>"
       and c' = "\<lparr>guildId = ''1'', categoryId = Some ''2'', logsChannelId = Some ''3'', supportRoleId = Some ''4'', ticketTopics = []\<rparr>\<lparr>ticketTopics := [\<lparr>topic_label = ''Bugs'', topic_value = ''bugreport'',
            topic_description = [], topic_emoji = None\<rparr>]\<rparr>"]
    topic_key_sanitized
    [where raw = "''!!!''" and w = True and l = "''Bang''" and d = None and e = None
       and l' = "''Bang''" and v = "''x''"
       and stored = "Some \<lparr>guildId = ''1'', categoryId = Some ''2'', logsChannelId = Some ''3'', supportRoleId = Some ''4'', ticketTopics = []\<rparr>" and stored' = "Some \<lparr>guildId = ''1'', categoryId = Some ''2'', logsChannelId = Some ''3'', supportRoleId = Some ''4'', ticketTopics = []\<rparr>" and g = "\<lparr>guildId = ''1'', categoryId = Some ''2'', logsChannelId = Some ''3'', supportRoleId = Some ''4'', ticketTopics = []\<rparr>"
       and env = "\<lparr>read_ok = True, write_ok = True\<rparr>"
       and c = "\<lparr>guildId = ''1'', categoryId = Some ''2'', logsChannelId = Some ''3'', supportRoleId = Some ''4'', ticketTopics = []\<rparr>" and c' = "\<lparr>guildId = ''1'', categoryId = Some ''2'', logsChannelId = Some ''3'', supportRoleId = Some ''4'', ticketTopics = []\<rparr>"]
  by (simp add: ticketTopicCommand_json_def ticketTopicCommand_db_def Let_def
        getGuildConfig_def setGuildConfig_def writeConfig_def topics_of_def topic_values_def
        sanitizeValue_def cleanValue_def char_defs truthy_def or_null_def)

text \<open>
  The claim as stated fails in the \<open>config.json\<close> variant, which does not strip
  whitespace: the value \<open>a b\<close> is cleaned to \<open>a_b\<close>, where lower-casing and stripping
  give \<open>ab\<close>.
\<close>

theorem topic_key_counterexample:
  "cleanValue ''a b'' = ''a_b'' \<and> filter isKeyChar (toLowerCase ''a b'') = ''ab'' \<and>
   ''a_b'' \<noteq> ''ab''"
  by (simp add: cleanValue_def char_defs)

section \<open>Ticket creation in the MongoDB variant\<close>

subsection \<open>Numbers below \<open>2 ^ 53\<close>\<close>

lemma bit_length_le: "n < 2 ^ k \<Longrightarrow> bit_length n \<le> k"
proof (induction k arbitrary: n)
  case 0
  then show ?case by (subst bit_length.simps) simp
next
  case (Suc k)
  show ?case
  proof (cases "n = 0")
    case True
    then show ?thesis by (subst bit_length.simps) simp
  next
    case False
    have "n div 2 < 2 ^ k" using Suc.prems by simp
    then have "bit_length (n div 2) \<le> k" by (rule Suc.IH)
    then show ?thesis using False by (subst bit_length.simps) simp
  qed
qed


lemma bit_length_ge: "k < bit_length n \<Longrightarrow> 2 ^ k \<le> n"
  using bit_length_le[of n k] by (cases "n < 2 ^ k") auto


lemma to_double_small: "n < 2 ^ 53 \<Longrightarrow> to_double n = Num n"
  using bit_length_le[of n 53] by (simp add: to_double_def Let_def)

lemma to_double_large:
  assumes big: "\<not> n < 2 ^ 53" and d: "to_double n = Num x"
  shows "(2::nat) ^ 53 \<le> x"
proof (cases "bit_length n \<le> 53")
  case True
  then show ?thesis using big d by (simp add: to_double_def Let_def)
next
  case False
  define sh where "sh = bit_length n - 53"
  define q where "q = n div 2 ^ sh"
  define m where "m = (if n mod 2 ^ sh > 2 ^ (sh - 1) \<or> (n mod 2 ^ sh = 2 ^ (sh - 1) \<and> odd q)
                       then q + 1 else q)"
  have sh1: "1 \<le> sh" using False by (simp add: sh_def)
  have "52 + sh < bit_length n" using False by (simp add: sh_def)
  then have "(2::nat) ^ (52 + sh) \<le> n" by (rule bit_length_ge)
  then have "(2::nat) ^ 52 * 2 ^ sh \<le> n" by (simp add: power_add)
  then have "((2::nat) ^ 52 * 2 ^ sh) div 2 ^ sh \<le> n div 2 ^ sh" by (rule div_le_mono)
  then have q52: "(2::nat) ^ 52 \<le> q" by (simp add: q_def)
  have "q \<le> m" by (simp add: m_def)
  then have m52: "(2::nat) ^ 52 \<le> m" using q52 by simp
  have "(2::nat) ^ 1 \<le> 2 ^ sh" using sh1 by (intro power_increasing) simp_all
  then have "(2::nat) ^ 52 * 2 ^ 1 \<le> m * 2 ^ sh" using m52 by (intro mult_le_mono)
  then have lower: "(2::nat) ^ 53 \<le> m * 2 ^ sh" by simp
  have "to_double n = (if m * 2 ^ sh \<ge> 2 ^ 1024 then PosInfinity else Num (m * 2 ^ sh))"
    using False by (simp add: to_double_def Let_def sh_def q_def m_def)
  then have "x = m * 2 ^ sh" using d by (simp split: if_splits)
  then show ?thesis using lower by simp
qed

lemma to_double_exact: "x < 2 ^ 53 \<Longrightarrow> to_double v = Num x \<Longrightarrow> v = x"
  using to_double_small[of v] to_double_large[of v x] by (cases "v < 2 ^ 53") auto



lemma nearest_multiple_rounds: "nearest_multiple x j = Some v \<Longrightarrow> to_double v = Num x"
  by (auto simp: nearest_multiple_def Let_def split: if_splits)

lemma shortest_decimal_small:
  assumes "x < 2 ^ 53"
  shows "shortest_decimal x = x"
proof (cases "find (\<lambda>j. nearest_multiple x j \<noteq> None) (rev [0 ..< length (show_nat x)])")
  case None
  then show ?thesis by (simp add: shortest_decimal_def)
next
  case (Some j)
  then have "nearest_multiple x j \<noteq> None" by (auto simp: find_Some_iff)
  then obtain v where v: "nearest_multiple x j = Some v" by auto
  then have "v = x" using nearest_multiple_rounds to_double_exact assms by blast
  then show ?thesis using Some v by (simp add: shortest_decimal_def)
qed

lemma length_show_nat: "0 < k \<Longrightarrow> n < 10 ^ k \<Longrightarrow> length (show_nat n) \<le> k"
proof (induction n arbitrary: k rule: show_nat.induct)
  case (1 n)
  show ?case
  proof (cases "n < 10")
    case True
    then show ?thesis using "1.prems" by (subst show_nat.simps) simp
  next
    case False
    obtain k' where k: "k = Suc k'" using "1.prems"(1) by (cases k) auto
    have k': "0 < k'" using False "1.prems"(2) k by (cases k') auto
    have "n div 10 < 10 ^ k'" using "1.prems"(2) k by (simp add: less_mult_imp_div_less)
    then have "length (show_nat (n div 10)) \<le> k'" using "1.IH"[OF False k'] by simp
    then show ?thesis using False k by (subst show_nat.simps) simp
  qed
qed

lemma show_number_small:
  assumes "x < 2 ^ 53"
  shows "show_number (Num x) = show_nat x"
proof -
  have "x < 10 ^ 16" using assms by simp
  then have "length (show_nat x) \<le> 16" using length_show_nat[of 16 x] by simp
  then show ?thesis using assms by (simp add: show_number_def shortest_decimal_small Let_def)
qed


lemma parseInt_small: "digits_value ds < 2 ^ 53 \<Longrightarrow> parseInt ds = Num (digits_value ds)"
  by (simp add: parseInt_def to_double_small)

subsection \<open>The next ticket number\<close>





lemma startsWith_append: "startsWith lit (lit @ ds)"
  by (induction lit) auto






subsection \<open>The outcomes of a creation request\<close>

lemma creation_not_configured:
  "\<not> isConfigured (getGuildConfig (config_read_ok env) stored) \<Longrightarrow>
   handleTicketCreation env guild stored user topicValue = (NotConfigured, guild)"
  by (auto simp: handleTicketCreation_def isConfigured_def Let_def)

lemma creation_unknown_topic:
  "isConfigured (getGuildConfig (config_read_ok env) stored) \<Longrightarrow>
   find (\<lambda>t. topic_value t = topicValue)
     (ticketTopics (getGuildConfig (config_read_ok env) stored)) = None \<Longrightarrow>
   handleTicketCreation env guild stored user topicValue = (UnknownTopic, guild)"
  by (simp add: handleTicketCreation_def isConfigured_def Let_def)

lemma creation_duplicate:
  "isConfigured (getGuildConfig (config_read_ok env) stored) \<Longrightarrow>
   find (\<lambda>t. topic_value t = topicValue)
     (ticketTopics (getGuildConfig (config_read_ok env) stored)) = Some topic \<Longrightarrow>
   existing_ticket_db guild user = Some existingTicket \<Longrightarrow>
   handleTicketCreation env guild stored user topicValue =
     (DuplicateTicket (channel_id existingTicket), guild)"
  by (simp add: handleTicketCreation_def isConfigured_def Let_def)

lemma creation_proceeds:
  "isConfigured (getGuildConfig (config_read_ok env) stored) \<Longrightarrow>
   find (\<lambda>t. topic_value t = topicValue)
     (ticketTopics (getGuildConfig (config_read_ok env) stored)) = Some topic \<Longrightarrow>
   existing_ticket_db guild user = None \<Longrightarrow>
   handleTicketCreation env guild stored user topicValue =
     (if \<not> create_ok env then (CreateFailed, guild)
      else if \<not> welcome_ok env
        then (CreateFailed,
              guild\<lparr>channels := channels guild @
                [ticket_channel env guild (getGuildConfig (config_read_ok env) stored) user topic]\<rparr>)
      else if \<not> reply_ok env
        then (CreateFailed,
              guild\<lparr>channels := channels guild @
                [(ticket_channel env guild (getGuildConfig (config_read_ok env) stored) user topic)
                   \<lparr>messages := [welcome_message env user topic]\<rparr>]\<rparr>)
      else (TicketCreated (new_channel_id env),
            log_opened env (getGuildConfig (config_read_ok env) stored)
              (guild\<lparr>channels := channels guild @
                [(ticket_channel env guild (getGuildConfig (config_read_ok env) stored) user topic)
                   \<lparr>messages := [welcome_message env user topic]\<rparr>]\<rparr>)))"
  by (simp add: handleTicketCreation_def isConfigured_def Let_def)


lemma ticket_channel_name:
  "channel_name (ticket_channel env guild config user topic) =
     ''ticket-'' @ show_number (getNextTicketNumber guild (categoryId config)) \<and>
   channel_id (ticket_channel env guild config user topic) = new_channel_id env \<and>
   parentId (ticket_channel env guild config user topic) = categoryId config \<and>
   channel_type (ticket_channel env guild config user topic) = GuildText \<and>
   channel_topic (ticket_channel env guild config user topic) =
     Some (''Ticket ID: ticket-'' @ show_number (getNextTicketNumber guild (categoryId config)) @
           '' | UserID: '' @ user_id user @ '' | Topic: '' @ topic_label topic)"
  by (simp add: ticket_channel_def Let_def)


lemma send_in_ids: "map channel_id (send_in i m cs) = map channel_id cs"
  by (induction cs) auto

lemma log_opened_ids:
  "map channel_id (channels (log_opened env config guild)) = map channel_id (channels guild)"
  by (simp add: log_opened_def send_in_ids)






section \<open>Tickets are recognized by their name\<close>


lemma close_refused_iff:
  "(fst (handleCloseTicket env guild stored channel user silent) = NotATicketChannel) =
   (\<not> startsWith ''ticket-'' (channel_name channel))"
  by (simp add: handleCloseTicket_def Let_def)

lemma lock_refused_iff:
  "(fst (handleLockTicket_db ok channel lockState) = NotATicketChannel) =
   (\<not> startsWith ''ticket-'' (channel_name channel))"
  by (simp add: handleLockTicket_db_def split: option.splits)

lemma rename_refused_iff:
  "(fst (handleRenameTicket ok channel newName) = NotATicketChannel) =
   (\<not> startsWith ''ticket-'' (channel_name channel))"
  by (simp add: handleRenameTicket_def)

lemma user_management_refused_iff:
  "(fst (handleUserManagement ok channel u isAdd) = NotATicketChannel) =
   (\<not> startsWith ''ticket-'' (channel_name channel))"
  by (simp add: handleUserManagement_def)

lemma existing_ticket_db_prefix:
  "existing_ticket_db guild user = Some c \<Longrightarrow>
   c \<in> set (channels guild) \<and> startsWith ''ticket-'' (channel_name c) \<and>
   (\<exists>t. channel_topic c = Some t \<and> str_includes (''UserID: '' @ user_id user) t)"
  unfolding existing_ticket_db_def
  by (auto simp: find_Some_iff split: option.splits)

lemma find_skip: "\<not> P c \<Longrightarrow> find P (pre @ c # post) = find P (pre @ post)"
  by (induction pre) auto

lemma scan_skips_renamed:
  "\<not> startsWith ''ticket-'' (channel_name c) \<Longrightarrow>
   existing_ticket_db (guild\<lparr>channels := pre @ c # post\<rparr>) user =
   existing_ticket_db (guild\<lparr>channels := pre @ post\<rparr>) user"
  by (simp add: existing_ticket_db_def find_skip)

lemma renamed_name:
  "handleRenameTicket ok channel newName = (Renamed n, channel') \<Longrightarrow>
   channel_name channel' = n \<and> n = safeName newName \<and> ok \<and>
   startsWith ''ticket-'' (channel_name channel)"
  by (auto simp: handleRenameTicket_def split: if_splits)

lemma duplicate_reply_source:
  assumes "handleTicketCreation env guild stored user topicValue = (DuplicateTicket i, guild')"
  shows "\<exists>c. existing_ticket_db guild user = Some c \<and> channel_id c = i"
proof -
  let ?config = "getGuildConfig (config_read_ok env) stored"
  have c: "isConfigured ?config"
    using assms creation_not_configured[of env stored guild user topicValue] by auto
  obtain topic where t: "find (\<lambda>t. topic_value t = topicValue) (ticketTopics ?config) = Some topic"
    using assms c creation_unknown_topic[of env stored topicValue guild user]
    by (cases "find (\<lambda>t. topic_value t = topicValue) (ticketTopics ?config)") auto
  show ?thesis
  proof (cases "existing_ticket_db guild user")
    case None
    then show ?thesis using assms creation_proceeds[OF c t None] by (auto split: if_splits)
  next
    case (Some e)
    then show ?thesis using assms creation_duplicate[OF c t Some] by auto
  qed
qed

lemma renamed_ticket_skipped:
  assumes np: "\<not> startsWith ''ticket-'' (channel_name c)"
    and e: "existing_ticket_db (guild\<lparr>channels := pre @ post\<rparr>) user = None"
    and cf: "isConfigured (getGuildConfig (config_read_ok env) stored)"
    and t: "find (\<lambda>t. topic_value t = topicValue)
              (ticketTopics (getGuildConfig (config_read_ok env) stored)) = Some topic"
    and ok: "create_ok env" "welcome_ok env" "reply_ok env"
  shows "handleTicketCreation env (guild\<lparr>channels := pre @ c # post\<rparr>) stored user topicValue =
           (TicketCreated (new_channel_id env),
            log_opened env (getGuildConfig (config_read_ok env) stored)
              (guild\<lparr>channels := pre @ c # post @
                 [(ticket_channel env (guild\<lparr>channels := pre @ c # post\<rparr>)
                     (getGuildConfig (config_read_ok env) stored) user topic)
                    \<lparr>messages := [welcome_message env user topic]\<rparr>]\<rparr>))"
proof -
  have "existing_ticket_db (guild\<lparr>channels := pre @ c # post\<rparr>) user = None"
    using e scan_skips_renamed[OF np, where guild = guild and pre = pre and post = post and user = user]
    by simp
  then show ?thesis
    using creation_proceeds[OF cf t, of "guild\<lparr>channels := pre @ c # post\<rparr>" user] ok by simp
qed

text \<open>
  Claim C9. In the MongoDB variant a channel is a ticket exactly when its name starts with
  \<open>ticket-\<close>: close, lock and unlock, rename, and adding or removing a user answer with the
  not-a-ticket error if and only if the name lacks the prefix, and the channel that the
  duplicate check reports has the prefix. Hence, after a rename that succeeds with a name
  that does not start with \<open>ticket-\<close>, close, lock, rename and user management are refused
  in that channel and the duplicate check no longer sees it; and when a user with no other
  ticket (the creator, for one) then asks for a ticket in a configured guild, with a known
  topic and with channel creation, welcome message and confirmation in order, the request
  is answered with the new ticket and the guild has one more channel, next to the renamed
  one: the new ticket, named with the prefix and with the user's id in its topic.
\<close>

theorem ticket_recognized_by_prefix:
  "((fst (handleCloseTicket cenv guild stored channel user silent) = NotATicketChannel) =
      (\<not> startsWith ''ticket-'' (channel_name channel))) \<and>
   ((fst (handleLockTicket_db ok channel lockState) = NotATicketChannel) =
      (\<not> startsWith ''ticket-'' (channel_name channel))) \<and>
   ((fst (handleRenameTicket ok channel newName) = NotATicketChannel) =
      (\<not> startsWith ''ticket-'' (channel_name channel))) \<and>
   ((fst (handleUserManagement ok channel other isAdd) = NotATicketChannel) =
      (\<not> startsWith ''ticket-'' (channel_name channel))) \<and>
   (handleTicketCreation env guild stored user topicValue = (DuplicateTicket i, guild') \<longrightarrow>
      (\<exists>c \<in> set (channels guild). channel_id c = i \<and>
          startsWith ''ticket-'' (channel_name c))) \<and>
   (handleRenameTicket ok channel newName = (Renamed n, channel') \<and>
    \<not> startsWith ''ticket-'' n \<longrightarrow>
      channel_name channel' = n \<and>
      fst (handleCloseTicket cenv guild stored channel' user silent) = NotATicketChannel \<and>
      fst (handleLockTicket_db ok channel' lockState) = NotATicketChannel \<and>
      fst (handleRenameTicket ok channel' newName') = NotATicketChannel \<and>
      fst (handleUserManagement ok channel' other isAdd) = NotATicketChannel \<and>
      existing_ticket_db (guild\<lparr>channels := pre @ channel' # post\<rparr>) user =
        existing_ticket_db (guild\<lparr>channels := pre @ post\<rparr>) user \<and>
      (existing_ticket_db (guild\<lparr>channels := pre @ post\<rparr>) user = None \<and>
       isConfigured (getGuildConfig (config_read_ok env) stored) \<and>
       find (\<lambda>t. topic_value t = topicValue)
         (ticketTopics (getGuildConfig (config_read_ok env) stored)) = Some topic \<and>
       create_ok env \<and> welcome_ok env \<and> reply_ok env \<longrightarrow>
         handleTicketCreation env (guild\<lparr>channels := pre @ channel' # post\<rparr>) stored user
             topicValue =
           (TicketCreated (new_channel_id env),
            log_opened env (getGuildConfig (config_read_ok env) stored)
              (guild\<lparr>channels := pre @ channel' # post @
                 [(ticket_channel env (guild\<lparr>channels := pre @ channel' # post\<rparr>)
                     (getGuildConfig (config_read_ok env) stored) user topic)
                    \<lparr>messages := [welcome_message env user topic]\<rparr>]\<rparr>)) \<and>
         map channel_id
           (channels (snd (handleTicketCreation env (guild\<lparr>channels := pre @ channel' # post\<rparr>)
              stored user topicValue))) =
           map channel_id (pre @ channel' # post) @ [new_channel_id env] \<and>
         startsWith ''ticket-''
           (channel_name (ticket_channel env (guild\<lparr>channels := pre @ channel' # post\<rparr>)
              (getGuildConfig (config_read_ok env) stored) user topic)) \<and>
         (\<exists>before after.
            channel_topic (ticket_channel env (guild\<lparr>channels := pre @ channel' # post\<rparr>)
              (getGuildConfig (config_read_ok env) stored) user topic) =
            Some (before @ ''UserID: '' @ user_id user @ after))))"
proof (intro conjI impI)
  assume "handleTicketCreation env guild stored user topicValue = (DuplicateTicket i, guild')"
  then show "\<exists>c \<in> set (channels guild). channel_id c = i \<and> startsWith ''ticket-'' (channel_name c)"
    using duplicate_reply_source existing_ticket_db_prefix by blast
next
  assume r: "handleRenameTicket ok channel newName = (Renamed n, channel') \<and>
    \<not> startsWith ''ticket-'' n"
  then have nm: "channel_name channel' = n" and np: "\<not> startsWith ''ticket-'' (channel_name channel')"
    using renamed_name by auto
  show "channel_name channel' = n" by (rule nm)
  show "fst (handleCloseTicket cenv guild stored channel' user silent) = NotATicketChannel"
    using np by (simp add: close_refused_iff)
  show "fst (handleLockTicket_db ok channel' lockState) = NotATicketChannel"
    using np by (simp add: lock_refused_iff)
  show "fst (handleRenameTicket ok channel' newName') = NotATicketChannel"
    using np by (simp add: rename_refused_iff)
  show "fst (handleUserManagement ok channel' other isAdd) = NotATicketChannel"
    using np by (simp add: user_management_refused_iff)
  show sk: "existing_ticket_db (guild\<lparr>channels := pre @ channel' # post\<rparr>) user =
        existing_ticket_db (guild\<lparr>channels := pre @ post\<rparr>) user"
    using np by (rule scan_skips_renamed)
  let ?config = "getGuildConfig (config_read_ok env) stored"
  let ?new = "ticket_channel env (guild\<lparr>channels := pre @ channel' # post\<rparr>) ?config user topic"
  assume a: "existing_ticket_db (guild\<lparr>channels := pre @ post\<rparr>) user = None \<and>
       isConfigured ?config \<and>
       find (\<lambda>t. topic_value t = topicValue) (ticketTopics ?config) = Some topic \<and>
       create_ok env \<and> welcome_ok env \<and> reply_ok env"
  show created: "handleTicketCreation env (guild\<lparr>channels := pre @ channel' # post\<rparr>) stored user
             topicValue =
           (TicketCreated (new_channel_id env),
            log_opened env ?config
              (guild\<lparr>channels := pre @ channel' # post @
                 [?new\<lparr>messages := [welcome_message env user topic]\<rparr>]\<rparr>))"
    using a by (intro renamed_ticket_skipped[OF np]) simp_all
  show "map channel_id
           (channels (snd (handleTicketCreation env (guild\<lparr>channels := pre @ channel' # post\<rparr>)
              stored user topicValue))) =
           map channel_id (pre @ channel' # post) @ [new_channel_id env]"
    using created ticket_channel_name[of env "guild\<lparr>channels := pre @ channel' # post\<rparr>"
        ?config user topic]
    by (simp add: log_opened_ids)
  show "startsWith ''ticket-'' (channel_name ?new)"
    using ticket_channel_name[of env "guild\<lparr>channels := pre @ channel' # post\<rparr>" ?config user topic]
      startsWith_append[of "''ticket-''"]
    by simp
  have "channel_topic ?new =
          Some ((''Ticket ID: ticket-'' @ show_number (getNextTicketNumber
                   (guild\<lparr>channels := pre @ channel' # post\<rparr>) (categoryId ?config)) @ '' | '') @
                ''UserID: '' @ user_id user @ ('' | Topic: '' @ topic_label topic))"
    using ticket_channel_name[of env "guild\<lparr>channels := pre @ channel' # post\<rparr>" ?config user topic]
    by simp
  then show "\<exists>before after. channel_topic ?new =
               Some (before @ ''UserID: '' @ user_id user @ after)"
    by blast
qed (simp_all add: close_refused_iff lock_refused_iff rename_refused_iff
       user_management_refused_iff)

text \<open>
  The theorem at ticket \<open>ticket-1\<close> of user 42: a second request is answered with
  \<open>DuplicateTicket\<close>; the rename to \<open>Urgent Issue!\<close> gives \<open>urgent-issue\<close>; after it close,
  lock and rename are refused there, and the user's next request creates a second channel,
  again named \<open>ticket-1\<close>.
\<close>

theorem ticket_recognized_by_prefix_witness:
  "let env = \<lparr>config_read_ok = True, create_ok = True, welcome_ok = True, reply_ok = True,
              log_send_ok = True, new_channel_id = ''2'', bot_id = ''b''\<rparr>;
       cenv = \<lparr>close_by_command = False, close_defer_ok = True, close_config_ok = True,
               transcript_ok = True, user_fetch_ok = True, logs_send_ok = True, dm_ok = True,
               notice_ok = True, close_reply_ok = True\<rparr>;
       stored = \<lparr>guildId = ''g'', categoryId = Some ''c'', logsChannelId = None,
                 supportRoleId = Some ''r'', ticketTopics = [topic_with_key ''bug'']\<rparr>;
       ann = \<lparr>user_id = ''42'', username = ''ann'', user_tag = ''ann#1''\<rparr>;
       ticket = text_channel ''1'' ''ticket-1'' (Some ''c'')
                  (Some ''Ticket ID: ticket-1 | UserID: 42 | Topic: bug'');
       renamed = text_channel ''1'' ''urgent-issue'' (Some ''c'')
                   (Some ''Ticket ID: ticket-1 | UserID: 42 | Topic: bug'');
       second = \<lparr>channel_id = ''2'', channel_name = ''ticket-1'', channel_type = GuildText,
           parentId = Some ''c'',
           channel_topic = Some ''Ticket ID: ticket-1 | UserID: 42 | Topic: bug'',
           permissionOverwrites = ticket_overwrites ''g'' ''42'' ''r'' ''b'',
           messages = [welcome_message env ann (topic_with_key ''bug'')]\<rparr>
   in handleTicketCreation env
        \<lparr>guild_id = ''g'', guild_name = ''G'', channels = [category_channel ''c'' ''Tickets'', ticket]\<rparr>
        stored ann ''bug'' =
        (DuplicateTicket ''1'',
         \<lparr>guild_id = ''g'', guild_name = ''G'',
           channels = [category_channel ''c'' ''Tickets'', ticket]\<rparr>) \<and>
      handleRenameTicket True ticket ''Urgent Issue!'' = (Renamed ''urgent-issue'', renamed) \<and>
      \<not> startsWith ''ticket-'' ''urgent-issue'' \<and>
      fst (handleCloseTicket cenv
        \<lparr>guild_id = ''g'', guild_name = ''G'', channels = [category_channel ''c'' ''Tickets'', renamed]\<rparr>
        stored renamed ann False) = NotATicketChannel \<and>
      fst (handleLockTicket_db True renamed True) = NotATicketChannel \<and>
      fst (handleRenameTicket True renamed ''ticket-1'') = NotATicketChannel \<and>
      handleTicketCreation env
        \<lparr>guild_id = ''g'', guild_name = ''G'', channels = [category_channel ''c'' ''Tickets'', renamed]\<rparr>
        stored ann ''bug'' =
        (TicketCreated ''2'',
         \<lparr>guild_id = ''g'', guild_name = ''G'',
           channels = [category_channel ''c'' ''Tickets'', renamed, second]\<rparr>)"
proof -
  let ?env = "\<lparr>config_read_ok = True, create_ok = True, welcome_ok = True, reply_ok = True,
              log_send_ok = True, new_channel_id = ''2'', bot_id = ''b''\<rparr>"
  let ?cenv = "\<lparr>close_by_command = False, close_defer_ok = True, close_config_ok = True,
               transcript_ok = True, user_fetch_ok = True, logs_send_ok = True, dm_ok = True,
               notice_ok = True, close_reply_ok = True\<rparr>"
  let ?stored = "\<lparr>guildId = ''g'', categoryId = Some ''c'', logsChannelId = None,
                 supportRoleId = Some ''r'', ticketTopics = [topic_with_key ''bug'']\<rparr>"
  let ?ann = "\<lparr>user_id = ''42'', username = ''ann'', user_tag = ''ann#1''\<rparr>"
  let ?ticket = "text_channel ''1'' ''ticket-1'' (Some ''c'')
                  (Some ''Ticket ID: ticket-1 | UserID: 42 | Topic: bug'')"
  let ?renamed = "text_channel ''1'' ''urgent-issue'' (Some ''c'')
                   (Some ''Ticket ID: ticket-1 | UserID: 42 | Topic: bug'')"
  let ?second = "\<lparr>channel_id = ''2'', channel_name = ''ticket-1'', channel_type = GuildText,
           parentId = Some ''c'',
           channel_topic = Some ''Ticket ID: ticket-1 | UserID: 42 | Topic: bug'',
           permissionOverwrites = ticket_overwrites ''g'' ''42'' ''r'' ''b'',
           messages = [welcome_message ?env ?ann (topic_with_key ''bug'')]\<rparr>"
  let ?guild = "\<lparr>guild_id = ''g'', guild_name = ''G'',
                 channels = [category_channel ''c'' ''Tickets'', ?ticket]\<rparr>"
  let ?moved = "\<lparr>guild_id = ''g'', guild_name = ''G'',
                 channels = [category_channel ''c'' ''Tickets'', ?renamed]\<rparr>"
  have cfg: "getGuildConfig (config_read_ok ?env) ?stored = ?stored"
    by (simp add: getGuildConfig_def)
  have conf: "isConfigured ?stored"
    by (simp add: isConfigured_def truthy_def)
  have topic: "find (\<lambda>t. topic_value t = ''bug'') (ticketTopics ?stored) =
                 Some (topic_with_key ''bug'')"
    by (simp add: topic_with_key_def)
  have dup: "handleTicketCreation ?env ?guild ?stored ?ann ''bug'' = (DuplicateTicket ''1'', ?guild)"
    by (simp add: handleTicketCreation_def existing_ticket_db_def getGuildConfig_def truthy_def
          Let_def text_channel_def category_channel_def topic_with_key_def)
  have ren: "handleRenameTicket True ?ticket ''Urgent Issue!'' = (Renamed ''urgent-issue'', ?renamed)"
    by (simp add: handleRenameTicket_def safeName_def trim_hyphens_def text_channel_def char_defs)
  have np: "\<not> startsWith ''ticket-'' ''urgent-issue''"
    by simp
  have none: "existing_ticket_db
                (\<lparr>guild_id = ''g'', guild_name = ''G'', channels = []\<rparr>
                   \<lparr>channels := [category_channel ''c'' ''Tickets''] @ []\<rparr>) ?ann = None"
    by (simp add: existing_ticket_db_def category_channel_def)
  have one: "getNextTicketNumber ?moved (Some ''c'') = Num 1"
    by (simp add: getNextTicketNumber_def cache_get_def children_def Let_def to_double_small
          text_channel_def category_channel_def)
  have shown: "show_number (Num 1) = ''1''"
    using show_number_small[of 1] by (simp add: digit_char_def)
  have new: "(ticket_channel ?env ?moved ?stored ?ann (topic_with_key ''bug''))
               \<lparr>messages := [welcome_message ?env ?ann (topic_with_key ''bug'')]\<rparr> = ?second"
    using one shown by (simp add: ticket_channel_def Let_def topic_with_key_def)
  note t = ticket_recognized_by_prefix
    [where cenv = ?cenv and guild = "\<lparr>guild_id = ''g'', guild_name = ''G'', channels = []\<rparr>"
       and stored = ?stored and channel = ?ticket and user = ?ann
       and silent = False and ok = True and lockState = True
       and newName = "''Urgent Issue!''" and newName' = "''ticket-1''"
       and other = "\<lparr>user_id = ''43'', username = ''bob'', user_tag = ''bob#2''\<rparr>"
       and isAdd = True and env = ?env and topicValue = "''bug''" and i = "''1''"
       and guild' = "\<lparr>guild_id = ''g'', guild_name = ''G'', channels = []\<rparr>"
       and n = "''urgent-issue''" and channel' = ?renamed
       and pre = "[category_channel ''c'' ''Tickets'']" and post = "[]"
       and topic = "topic_with_key ''bug''"]
  have refused: "fst (handleCloseTicket ?cenv \<lparr>guild_id = ''g'', guild_name = ''G'', channels = []\<rparr>
                   ?stored ?renamed ?ann False) = NotATicketChannel"
    "fst (handleLockTicket_db True ?renamed True) = NotATicketChannel"
    "fst (handleRenameTicket True ?renamed ''ticket-1'') = NotATicketChannel"
    and created: "handleTicketCreation ?env ?moved ?stored ?ann ''bug'' =
        (TicketCreated ''2'',
         log_opened ?env ?stored
           \<lparr>guild_id = ''g'', guild_name = ''G'',
             channels = [category_channel ''c'' ''Tickets'', ?renamed, ?second]\<rparr>)"
    using t ren np none cfg conf topic new by simp_all
  have close: "fst (handleCloseTicket ?cenv ?moved ?stored ?renamed ?ann False) = NotATicketChannel"
    by (simp add: handleCloseTicket_def text_channel_def Let_def)
  have logged: "log_opened ?env ?stored
           \<lparr>guild_id = ''g'', guild_name = ''G'',
             channels = [category_channel ''c'' ''Tickets'', ?renamed, ?second]\<rparr> =
           \<lparr>guild_id = ''g'', guild_name = ''G'',
             channels = [category_channel ''c'' ''Tickets'', ?renamed, ?second]\<rparr>"
    by (simp add: log_opened_def truthy_def)
  show ?thesis
    using dup ren np close refused created logged by (simp add: Let_def)
qed

section \<open>The order of the checks of a creation request\<close>


lemma creation_never_cooldown:
  "fst (handleTicketCreation env guild stored user topicValue) \<noteq> CooldownActive r"
proof -
  let ?config = "getGuildConfig (config_read_ok env) stored"
  show ?thesis
  proof (cases "isConfigured ?config")
    case False
    then show ?thesis by (simp add: creation_not_configured)
  next
    case c: True
    show ?thesis
    proof (cases "find (\<lambda>t. topic_value t = topicValue) (ticketTopics ?config)")
      case None
      then show ?thesis using c by (simp add: creation_unknown_topic)
    next
      case t: (Some topic)
      show ?thesis
      proof (cases "existing_ticket_db guild user")
        case None
        then show ?thesis using creation_proceeds[OF c t None] by simp
      next
        case (Some e)
        then show ?thesis using creation_duplicate[OF c t Some] by simp
      qed
    qed
  qed
qed

lemma select_cooldown:
  "cooldown_of cds user = Some t \<Longrightarrow>
   select_menu_interaction cds now guild (Some config) user ''ticket_panel_menu'' topicValue =
     CooldownActive (- ((- (t - now)) div 1000))"
  by (simp add: select_menu_interaction_def handleSelectMenuInteraction_def)

lemma select_duplicate:
  "cooldown_of cds user = None \<Longrightarrow> existing_ticket_json guild config user = Some c \<Longrightarrow>
   select_menu_interaction cds now guild (Some config) user ''ticket_panel_menu'' topicValue =
     DuplicateTicket (channel_id c)"
  by (simp add: select_menu_interaction_def handleSelectMenuInteraction_def)

lemma select_unknown_topic:
  "cooldown_of cds user = None \<Longrightarrow> existing_ticket_json guild config user = None \<Longrightarrow>
   find (\<lambda>t. topic_value t = topicValue) (ticketTopics config) = None \<Longrightarrow>
   select_menu_interaction cds now guild (Some config) user ''ticket_panel_menu'' topicValue =
     UnknownTopic"
  by (simp add: select_menu_interaction_def handleSelectMenuInteraction_def)

lemma select_modal:
  "cooldown_of cds user = None \<Longrightarrow> existing_ticket_json guild config user = None \<Longrightarrow>
   find (\<lambda>t. topic_value t = topicValue) (ticketTopics config) \<noteq> None \<Longrightarrow>
   select_menu_interaction cds now guild (Some config) user ''ticket_panel_menu'' topicValue =
     ShowModal topicValue"
  by (auto simp: select_menu_interaction_def handleSelectMenuInteraction_def)

lemma modal_unknown_topic:
  "find (\<lambda>t. topic_value t = topicValue) (ticketTopics config) = None \<Longrightarrow>
   handleModalSubmit menv cds now guild config user topicValue subject description =
     (UnknownTopic, guild, cds)"
  by (simp add: handleModalSubmit_def)


text \<open>
  Claim C1, as amended. In the MongoDB variant a creation request is checked in this order,
  the first failure deciding the reply: the configuration has a category and a support
  role (\<open>NotConfigured\<close>), the topic is in the topic list (\<open>UnknownTopic\<close>), the user has
  no channel whose name starts with \<open>ticket-\<close> and whose topic holds his user id
  (\<open>DuplicateTicket\<close> with that channel); there is no cooldown, and no reply is
  \<open>CooldownActive\<close>. In the select-menu variant the order is: the guild has an entry in the
  configuration (\<open>NotConfigured\<close>), the user has no cooldown entry (\<open>CooldownActive\<close> with the
  remaining seconds, rounded up), the user has no channel under the category whose topic
  holds his user id (\<open>DuplicateTicket\<close>), the topic is in the topic list (\<open>UnknownTopic\<close>);
  then the form is shown, and on its submission the topic is looked up again. Whenever one
  of these checks fails the guild's channels are as before.
\<close>

theorem creation_checks_in_order:
  "(\<not> isConfigured (getGuildConfig (config_read_ok env) stored) \<longrightarrow>
      handleTicketCreation env guild stored user topicValue = (NotConfigured, guild)) \<and>
   (isConfigured (getGuildConfig (config_read_ok env) stored) \<and>
    find (\<lambda>t. topic_value t = topicValue)
      (ticketTopics (getGuildConfig (config_read_ok env) stored)) = None \<longrightarrow>
      handleTicketCreation env guild stored user topicValue = (UnknownTopic, guild)) \<and>
   (isConfigured (getGuildConfig (config_read_ok env) stored) \<and>
    find (\<lambda>t. topic_value t = topicValue)
      (ticketTopics (getGuildConfig (config_read_ok env) stored)) \<noteq> None \<and>
    existing_ticket_db guild user = Some existing \<longrightarrow>
      handleTicketCreation env guild stored user topicValue =
        (DuplicateTicket (channel_id existing), guild)) \<and>
   fst (handleTicketCreation env guild stored user topicValue) \<noteq> CooldownActive r \<and>
   select_menu_interaction cds now guild None user customId topicValue = NotConfigured \<and>
   (cooldown_of cds user = Some t \<longrightarrow>
      select_menu_interaction cds now guild (Some config) user ''ticket_panel_menu'' topicValue =
        CooldownActive (- ((- (t - now)) div 1000))) \<and>
   (cooldown_of cds user = None \<and> existing_ticket_json guild config user = Some existing \<longrightarrow>
      select_menu_interaction cds now guild (Some config) user ''ticket_panel_menu'' topicValue =
        DuplicateTicket (channel_id existing)) \<and>
   (cooldown_of cds user = None \<and> existing_ticket_json guild config user = None \<and>
    find (\<lambda>t. topic_value t = topicValue) (ticketTopics config) = None \<longrightarrow>
      select_menu_interaction cds now guild (Some config) user ''ticket_panel_menu'' topicValue =
        UnknownTopic) \<and>
   (cooldown_of cds user = None \<and> existing_ticket_json guild config user = None \<and>
    find (\<lambda>t. topic_value t = topicValue) (ticketTopics config) \<noteq> None \<longrightarrow>
      select_menu_interaction cds now guild (Some config) user ''ticket_panel_menu'' topicValue =
        ShowModal topicValue) \<and>
   (find (\<lambda>t. topic_value t = topicValue) (ticketTopics config) = None \<longrightarrow>
      handleModalSubmit menv cds now guild config user topicValue subject description =
        (UnknownTopic, guild, cds))"
proof (intro conjI impI)
  assume "isConfigured (getGuildConfig (config_read_ok env) stored) \<and>
    find (\<lambda>t. topic_value t = topicValue)
      (ticketTopics (getGuildConfig (config_read_ok env) stored)) \<noteq> None \<and>
    existing_ticket_db guild user = Some existing"
  then show "handleTicketCreation env guild stored user topicValue =
        (DuplicateTicket (channel_id existing), guild)"
    using creation_duplicate[of env stored topicValue _ guild user existing] by auto
next
  show "select_menu_interaction cds now guild None user customId topicValue = NotConfigured"
    by (simp add: select_menu_interaction_def)
qed (simp_all add: creation_not_configured creation_unknown_topic creation_never_cooldown
       select_cooldown select_duplicate select_unknown_topic select_modal modal_unknown_topic)



text \<open>
  The theorem at user 42, who has the numbered ticket \<open>ticket-1\<close> and the named ticket
  \<open>bug-ann\<close> in guild \<open>G1\<close> and none in \<open>G0\<close>, with the one topic \<open>bug\<close>.
\<close>

theorem creation_checks_in_order_witness:
  "let cfg = \<lparr>guildId = ''g'', categoryId = Some ''c'', logsChannelId = Some ''l'',
                supportRoleId = Some ''r'', ticketTopics = [topic_with_key ''bug'']\<rparr>;
       env = \<lparr>config_read_ok = True, create_ok = True, welcome_ok = True, reply_ok = True,
                log_send_ok = True, new_channel_id = ''9'', bot_id = ''b''\<rparr>;
       menv = \<lparr>modal_create_ok = True, modal_error_code = 0, modal_welcome_ok = True,
                modal_channel_id = ''9'', modal_bot_id = ''b''\<rparr>;
       u = \<lparr>user_id = ''42'', username = ''ann'', user_tag = ''ann#1''\<rparr>;
       numbered = text_channel ''1'' ''ticket-1'' (Some ''c'')
                    (Some ''Ticket ID: ticket-1 | UserID: 42 | Topic: bug'');
       named = text_channel ''2'' ''bug-ann'' (Some ''c'')
                    (Some ''Ticket for ann#1 (User ID: 42). Subject: help'');
       G0 = \<lparr>guild_id = ''g'', guild_name = ''G'', channels = [category_channel ''c'' ''Tickets'']\<rparr>;
       G1 = \<lparr>guild_id = ''g'', guild_name = ''G'',
              channels = [category_channel ''c'' ''Tickets'', numbered, named]\<rparr>
   in handleTicketCreation env G1 (cfg\<lparr>categoryId := None\<rparr>) u ''gone'' = (NotConfigured, G1) \<and>
      handleTicketCreation env G1 cfg u ''gone'' = (UnknownTopic, G1) \<and>
      handleTicketCreation env G1 cfg u ''bug'' = (DuplicateTicket ''1'', G1) \<and>
      select_menu_interaction (Map.empty(''42'' \<mapsto> 200000)) 100000 G1 (Some cfg) u
        ''ticket_panel_menu'' ''gone'' = CooldownActive 100 \<and>
      select_menu_interaction Map.empty 100000 G1 (Some cfg) u
        ''ticket_panel_menu'' ''gone'' = DuplicateTicket ''2'' \<and>
      select_menu_interaction Map.empty 100000 G0 (Some cfg) u
        ''ticket_panel_menu'' ''gone'' = UnknownTopic \<and>
      select_menu_interaction Map.empty 100000 G0 (Some cfg) u
        ''ticket_panel_menu'' ''bug'' = ShowModal ''bug'' \<and>
      handleModalSubmit menv Map.empty 100000 G0 cfg u ''gone'' ''help'' ''it is broken'' =
        (UnknownTopic, G0, Map.empty)"
proof -
  let ?cfg = "\<lparr>guildId = ''g'', categoryId = Some ''c'', logsChannelId = Some ''l'',
                supportRoleId = Some ''r'', ticketTopics = [topic_with_key ''bug'']\<rparr>"
  let ?env = "\<lparr>config_read_ok = True, create_ok = True, welcome_ok = True, reply_ok = True,
                log_send_ok = True, new_channel_id = ''9'', bot_id = ''b''\<rparr>"
  let ?menv = "\<lparr>modal_create_ok = True, modal_error_code = 0, modal_welcome_ok = True,
                modal_channel_id = ''9'', modal_bot_id = ''b''\<rparr>"
  let ?u = "\<lparr>user_id = ''42'', username = ''ann'', user_tag = ''ann#1''\<rparr>"
  let ?numbered = "text_channel ''1'' ''ticket-1'' (Some ''c'')
                    (Some ''Ticket ID: ticket-1 | UserID: 42 | Topic: bug'')"
  let ?named = "text_channel ''2'' ''bug-ann'' (Some ''c'')
                    (Some ''Ticket for ann#1 (User ID: 42). Subject: help'')"
  let ?G0 = "\<lparr>guild_id = ''g'', guild_name = ''G'', channels = [category_channel ''c'' ''Tickets'']\<rparr>"
  let ?G1 = "\<lparr>guild_id = ''g'', guild_name = ''G'',
              channels = [category_channel ''c'' ''Tickets'', ?numbered, ?named]\<rparr>"
  note a = creation_checks_in_order
    [where env = ?env and guild = ?G1 and stored = "?cfg\<lparr>categoryId := None\<rparr>" and user = ?u
       and topicValue = "''gone''" and existing = ?numbered and r = 0
       and cds = "Map.empty(''42'' \<mapsto> 200000)" and now = 100000 and t = 200000
       and customId = "''ticket_panel_menu''" and config = ?cfg and menv = ?menv
       and subject = "''help''" and description = "''it is broken''"]
  note b = creation_checks_in_order
    [where env = ?env and guild = ?G1 and stored = ?cfg and user = ?u
       and topicValue = "''gone''" and existing = ?named and r = 0
       and cds = Map.empty and now = 100000 and t = 200000
       and customId = "''ticket_panel_menu''" and config = ?cfg and menv = ?menv
       and subject = "''help''" and description = "''it is broken''"]
  note c = creation_checks_in_order
    [where env = ?env and guild = ?G1 and stored = ?cfg and user = ?u
       and topicValue = "''bug''" and existing = ?numbered and r = 0
       and cds = Map.empty and now = 100000 and t = 200000
       and customId = "''ticket_panel_menu''" and config = ?cfg and menv = ?menv
       and subject = "''help''" and description = "''it is broken''"]
  note d = creation_checks_in_order
    [where env = ?env and guild = ?G0 and stored = ?cfg and user = ?u
       and topicValue = "''gone''" and existing = ?numbered and r = 0
       and cds = Map.empty and now = 100000 and t = 200000
       and customId = "''ticket_panel_menu''" and config = ?cfg and menv = ?menv
       and subject = "''help''" and description = "''it is broken''"]
  note e = creation_checks_in_order
    [where env = ?env and guild = ?G0 and stored = ?cfg and user = ?u
       and topicValue = "''bug''" and existing = ?numbered and r = 0
       and cds = Map.empty and now = 100000 and t = 200000
       and customId = "''ticket_panel_menu''" and config = ?cfg and menv = ?menv
       and subject = "''help''" and description = "''it is broken''"]
  show ?thesis
    using a b c d e
    by (simp add: Let_def isConfigured_def getGuildConfig_def truthy_def cooldown_of_def
          existing_ticket_db_def existing_ticket_json_def text_channel_def
          category_channel_def topic_with_key_def)
qed


text \<open>
  The claim's order fails in the select-menu variant, which looks at the cooldown first: a
  configured guild, a topic that is no longer in the list, and a user under cooldown give
  \<open>CooldownActive\<close>, where the claim's second check would give \<open>UnknownTopic\<close>.
\<close>

theorem creation_order_counterexample:
  "isConfigured \<lparr>guildId = ''g'', categoryId = Some ''c'', logsChannelId = Some ''l'',
      supportRoleId = Some ''r'', ticketTopics = [topic_with_key ''bug'']\<rparr> \<and>
   ''gone'' \<notin> set (topic_values [topic_with_key ''bug'']) \<and>
   select_menu_interaction (Map.empty(''42'' \<mapsto> 200000)) 100000
     \<lparr>guild_id = ''g'', guild_name = ''G'', channels = [category_channel ''c'' ''Tickets'']\<rparr>
     (Some \<lparr>guildId = ''g'', categoryId = Some ''c'', logsChannelId = Some ''l'',
        supportRoleId = Some ''r'', ticketTopics = [topic_with_key ''bug'']\<rparr>)
     \<lparr>user_id = ''42'', username = ''ann'', user_tag = ''ann#1''\<rparr>
     ''ticket_panel_menu'' ''gone'' = CooldownActive 100 \<and>
   CooldownActive 100 \<noteq> UnknownTopic"
  by (simp add: select_menu_interaction_def handleSelectMenuInteraction_def cooldown_of_def
        isConfigured_def truthy_def topic_values_def topic_with_key_def)

section \<open>The cooldown of the select-menu variant\<close>








section \<open>The control panel of the select-menu variant\<close>


lemma map_of_set_field:
  "map_of (set_field n v fs) k =
     (if k = n then (if map_of fs n = None then None else Some v) else map_of fs k)"
  by (induction fs) (auto split: if_splits)

lemma panel_field_update_one:
  "message_embeds m \<noteq> [] \<Longrightarrow>
   panel_field (update_panel m [(n, v)] colour row) k =
     (if k = n then (if panel_field m n = None then None else Some v) else panel_field m k)"
  by (cases "message_embeds m") (auto simp: panel_field_def update_panel_def map_of_set_field)

lemma panel_field_update_two:
  "message_embeds m \<noteq> [] \<Longrightarrow> n2 \<noteq> n1 \<Longrightarrow>
   panel_field (update_panel m [(n1, v1), (n2, v2)] colour row) k =
     (if k = n1 then (if panel_field m n1 = None then None else Some v1)
      else if k = n2 then (if panel_field m n2 = None then None else Some v2)
      else panel_field m k)"
  by (cases "message_embeds m") (auto simp: panel_field_def update_panel_def map_of_set_field)

lemma panel_field_embeds: "panel_field m k \<noteq> None \<Longrightarrow> message_embeds m \<noteq> []"
  by (auto simp: panel_field_def)

lemma panel_field_relabelled:
  assumes "panel_field m ''Status'' \<noteq> None"
  shows "panel_field (relabelled_panel m b lock) ''Status'' = Some (lock_label m lock) \<and>
         panel_field (relabelled_panel m b lock) ''Claimed By'' = panel_field m ''Claimed By''"
proof -
  have ne: "message_embeds m \<noteq> []" using assms by (rule panel_field_embeds)
  show ?thesis
    unfolding relabelled_panel_def panel_field_update_one[OF ne]
    using assms by simp
qed

lemma is_panel_update:
  "is_panel botId m \<Longrightarrow> is_panel botId (update_panel m changes colour row)"
  by (cases "message_embeds m") (auto simp: is_panel_def update_panel_def)

lemma not_panel_notice: "\<not> is_panel botId (notice b colour)"
  by (simp add: is_panel_def notice_def)

lemma find_Some_mem: "find P xs = Some x \<Longrightarrow> x \<in> set xs \<and> P x"
  by (induction xs) (auto split: if_splits)

lemma find_rev_upt_bound: "find P (rev [a..<n]) = Some i \<Longrightarrow> i < n \<and> P i"
  using find_Some_mem[of P "rev [a..<n]" i] by simp

lemma lookup_unfold:
  "getControlPanelMessage ok botId ch =
     (if \<not> ok \<or> messages ch = [] then None
      else if is_panel botId (messages ch ! 0) then Some 0
      else find (\<lambda>i. is_panel botId (messages ch ! i))
             (rev [length (messages ch) - 10 ..< length (messages ch)]))"
  by (cases "messages ch") (simp_all add: getControlPanelMessage_def Let_def)

lemma panel_index:
  assumes "getControlPanelMessage ok botId ch = Some i"
  shows "i < length (messages ch) \<and> is_panel botId (messages ch ! i) \<and>
         getControlPanelMessage True botId ch = Some i"
proof -
  have ne: "messages ch \<noteq> []" and ok: ok
    using assms by (auto simp: lookup_unfold split: if_splits)
  show ?thesis
  proof (cases "is_panel botId (messages ch ! 0)")
    case True
    then have "i = 0" using assms ne ok by (simp add: lookup_unfold)
    then show ?thesis using True ne by (simp add: lookup_unfold)
  next
    case False
    then have f: "find (\<lambda>i. is_panel botId (messages ch ! i))
                 (rev [length (messages ch) - 10 ..< length (messages ch)]) = Some i"
      using assms ne ok by (simp add: lookup_unfold)
    then show ?thesis using False ne find_rev_upt_bound[OF f] by (simp add: lookup_unfold)
  qed
qed

lemma find_cong_set: "(\<And>x. x \<in> set xs \<Longrightarrow> P x = Q x) \<Longrightarrow> find P xs = find Q xs"
  by (induction xs) auto

lemma find_append: "find P (xs @ ys) = (case find P xs of None \<Rightarrow> find P ys | Some x \<Rightarrow> Some x)"
  by (induction xs) auto

lemma window_shift:
  assumes "find P (rev [n - 10 ..< n]) = Some i"
  shows "find P (rev [n - 9 ..< n]) = None \<or> find P (rev [n - 9 ..< n]) = Some i"
proof (cases "n \<le> 9")
  case True
  then show ?thesis using assms by simp
next
  case False
  then have "[n - 10 ..< n] = (n - 10) # [n - 9 ..< n]"
    by (simp add: upt_conv_Cons Suc_diff_le)
  then have "find P (rev [n - 9 ..< n] @ [n - 10]) = Some i" using assms by simp
  then show ?thesis by (auto simp: find_append split: option.splits)
qed



lemma lookup_after_edit:
  assumes look: "getControlPanelMessage True botId ch = Some i"
    and ms: "messages ch' = (messages ch)[i := m'] @ [nt]"
    and pm: "is_panel botId m'" and pn: "\<not> is_panel botId nt"
  shows "getControlPanelMessage ok botId ch' = None \<or> getControlPanelMessage ok botId ch' = Some i"
proof -
  let ?n = "length (messages ch)"
  let ?P = "\<lambda>k. is_panel botId (messages ch ! k)"
  let ?P' = "\<lambda>k. is_panel botId (messages ch' ! k)"
  have i: "i < ?n" and pi: "?P i" using panel_index[OF look] by auto
  have same: "?P' k = ?P k" if "k < ?n" for k
  proof (cases "k = i")
    case True
    then show ?thesis using ms pm pi i by (simp add: nth_append)
  next
    case False
    then show ?thesis using ms that by (simp add: nth_append)
  qed
  have last: "\<not> ?P' ?n" using ms pn by (simp add: nth_append)
  have len: "length (messages ch') = Suc ?n" using ms by simp
  have ne: "messages ch \<noteq> []" using i by auto
  have ne': "messages ch' \<noteq> []" using len by auto
  show ?thesis
  proof (cases "?P 0")
    case True
    then have "i = 0" using look ne by (simp add: lookup_unfold)
    then have "?P' 0" using same[of 0] pi i by simp
    then show ?thesis using ne' \<open>i = 0\<close> by (simp add: lookup_unfold)
  next
    case False
    then have f: "find ?P (rev [?n - 10 ..< ?n]) = Some i"
      using look ne by (simp add: lookup_unfold)
    have np0: "\<not> ?P' 0" using same[of 0] False i ne by simp
    have sub: "Suc ?n - 10 = ?n - 9" by simp
    have up: "[?n - 9 ..< Suc ?n] = [?n - 9 ..< ?n] @ [?n]" by simp
    have "find ?P' (rev [Suc ?n - 10 ..< Suc ?n]) = find ?P' (rev [?n - 9 ..< ?n])"
      unfolding sub up using last by simp
    also have "\<dots> = find ?P (rev [?n - 9 ..< ?n])"
      by (rule find_cong_set) (simp add: same)
    finally have w: "find ?P' (rev [Suc ?n - 10 ..< Suc ?n]) = None \<or>
                  find ?P' (rev [Suc ?n - 10 ..< Suc ?n]) = Some i"
      using window_shift[OF f] by simp
    have "getControlPanelMessage ok botId ch' =
            (if \<not> ok then None else find ?P' (rev [Suc ?n - 10 ..< Suc ?n]))"
      using np0 ne' len by (simp add: lookup_unfold)
    then show ?thesis using w by auto
  qed
qed



lemma lock_result:
  assumes "handleLockTicket_json env ch lock = (r, ch')"
    and "r = Locked c \<or> r = Unlocked c"
  shows "\<exists>i b. getControlPanelMessage True (panel_bot_id env) ch = Some i \<and>
           claim_button_of (messages ch ! i) = Some (Some b) \<and>
           panel_field (messages ch ! i) ''Status'' \<noteq> None \<and>
           r = (if lock then Locked c else Unlocked c) \<and>
           messages ch' = (messages ch)[i := relabelled_panel (messages ch ! i) b lock] @
             [notice (panel_bot_id env) (if lock then 0xED4245 else 0x57F287)]"
proof -
  obtain creator where cr: "getTicketCreatorId ch = Some creator"
    using assms by (cases "getTicketCreatorId ch") (auto simp: handleLockTicket_json_def)
  obtain i where lk: "getControlPanelMessage (panel_fetch_ok env) (panel_bot_id env) ch = Some i"
    using assms cr
    by (cases "getControlPanelMessage (panel_fetch_ok env) (panel_bot_id env) ch")
       (auto simp: handleLockTicket_json_def)
  obtain b where bt: "claim_button_of (messages ch ! i) = Some (Some b)"
    using assms cr lk
    by (cases "claim_button_of (messages ch ! i)")
       (auto simp: handleLockTicket_json_def split: option.splits)
  have eq: "(r, ch') =
     (if \<not> perm_edit_ok env then (LockFailed, ch)
      else if (\<not> lock \<and> panel_field (messages ch ! i) ''Claimed By'' = None) \<or>
              panel_field (messages ch ! i) ''Status'' = None \<or> \<not> panel_edit_ok env
        then (LockFailed,
              ch\<lparr>permissionOverwrites :=
                edit_overwrite creator [(SendMessages, \<not> lock)] (permissionOverwrites ch)\<rparr>)
      else if \<not> panel_send_ok env
        then (LockFailed,
              ch\<lparr>permissionOverwrites :=
                  edit_overwrite creator [(SendMessages, \<not> lock)] (permissionOverwrites ch),
                messages := (messages ch)
                  [i := relabelled_panel (messages ch ! i) b lock]\<rparr>)
      else ((if lock then Locked creator else Unlocked creator),
            ch\<lparr>permissionOverwrites :=
                edit_overwrite creator [(SendMessages, \<not> lock)] (permissionOverwrites ch),
              messages := (messages ch)
                [i := relabelled_panel (messages ch ! i) b lock] @
                [notice (panel_bot_id env) (if lock then 0xED4245 else 0x57F287)]\<rparr>))"
    using assms(1) cr lk bt by (simp add: handleLockTicket_json_def)
  have ok: "perm_edit_ok env \<and> panel_field (messages ch ! i) ''Status'' \<noteq> None \<and>
            panel_edit_ok env \<and> panel_send_ok env"
    using eq assms(2) by (auto split: if_splits)
  have res: "r = (if lock then Locked creator else Unlocked creator) \<and>
     messages ch' = (messages ch)[i := relabelled_panel (messages ch ! i) b lock] @
                [notice (panel_bot_id env) (if lock then 0xED4245 else 0x57F287)]"
    using eq ok assms(2) by (auto split: if_splits)
  have "creator = c" using res assms(2) by (auto split: if_splits)
  then show ?thesis using panel_index[OF lk] bt ok res by auto
qed



lemma is_panel_relabelled:
  "is_panel botId m \<Longrightarrow> is_panel botId (relabelled_panel m b lock)"
  by (simp add: relabelled_panel_def is_panel_update)

lemma fresh_panel_matches:
  "label_matches_claim (control_panel menv user subject description)"
  by (simp add: label_matches_claim_def control_panel_def panel_field_def)

lemma claimed_panel_fields:
  assumes "panel_field m ''Claimed By'' \<noteq> None" and "panel_field m ''Status'' \<noteq> None"
  shows "panel_field (claimed_panel m mention) ''Claimed By'' = Some mention \<and>
         panel_field (claimed_panel m mention) ''Status'' = Some ''`In Progress`''"
proof -
  have ne: "message_embeds m \<noteq> []" using assms(1) by (rule panel_field_embeds)
  show ?thesis
    unfolding claimed_panel_def using assms by (simp add: panel_field_update_two[OF ne])
qed

lemma unclaimed_panel_fields:
  assumes "panel_field m ''Claimed By'' \<noteq> None" and "panel_field m ''Status'' \<noteq> None"
  shows "panel_field (unclaimed_panel m) ''Claimed By'' = Some ''`Unclaimed`'' \<and>
         panel_field (unclaimed_panel m) ''Status'' = Some ''`Open`''"
proof -
  have ne: "message_embeds m \<noteq> []" using assms(1) by (rule panel_field_embeds)
  show ?thesis
    unfolding unclaimed_panel_def using assms by (simp add: panel_field_update_two[OF ne])
qed

lemma claimed_panel_matches:
  "panel_field m ''Claimed By'' \<noteq> None \<Longrightarrow> panel_field m ''Status'' \<noteq> None \<Longrightarrow>
   label_matches_claim (claimed_panel m (''<@'' @ uid @ ''>''))"
  using claimed_panel_fields[of m "''<@'' @ uid @ ''>''"] by (simp add: label_matches_claim_def)

lemma unclaimed_panel_matches:
  "panel_field m ''Claimed By'' \<noteq> None \<Longrightarrow> panel_field m ''Status'' \<noteq> None \<Longrightarrow>
   label_matches_claim (unclaimed_panel m)"
  using unclaimed_panel_fields[of m] by (simp add: label_matches_claim_def)


subsection \<open>Lock and unlock\<close>

text \<open>
  Claim C7. Let a lock of a ticket succeed and an unlock of the result succeed, and let the
  control panel be the message at position \<open>i\<close>. After the lock the panel's status is
  \<open>Locked\<close>, whatever its claimer field says, and the claimer field is as before. The unlock
  finds the same panel; after it the status is \<open>Open\<close> when the claimer field says
  \<open>Unclaimed\<close> and \<open>In Progress\<close> otherwise, and the claimer field is still as before. So
  when the status before the lock was the one that goes with the claimer field (as it is
  after creation, claim and unclaim), lock followed by unlock restores it.
\<close>

theorem lock_unlock_restores_label:
  assumes L: "handleLockTicket_json env ch True = (Locked c, locked)"
    and U: "handleLockTicket_json env' locked False = (Unlocked c', unlocked)"
    and B: "panel_bot_id env' = panel_bot_id env"
    and I: "getControlPanelMessage True (panel_bot_id env) ch = Some i"
  shows "panel_field (messages locked ! i) ''Status'' = Some ''`Locked`'' \<and>
         panel_field (messages locked ! i) ''Claimed By'' =
           panel_field (messages ch ! i) ''Claimed By'' \<and>
         getControlPanelMessage True (panel_bot_id env) locked = Some i \<and>
         panel_field (messages unlocked ! i) ''Status'' =
           Some (if panel_field (messages ch ! i) ''Claimed By'' = Some ''`Unclaimed`''
                 then ''`Open`'' else ''`In Progress`'') \<and>
         panel_field (messages unlocked ! i) ''Claimed By'' =
           panel_field (messages ch ! i) ''Claimed By'' \<and>
         (label_matches_claim (messages ch ! i) \<longrightarrow>
            panel_field (messages unlocked ! i) ''Status'' = panel_field (messages ch ! i) ''Status'')"
proof -
  let ?bot = "panel_bot_id env"
  let ?m = "messages ch ! i"
  obtain b where st: "panel_field ?m ''Status'' \<noteq> None"
    and m1: "messages locked = (messages ch)[i := relabelled_panel ?m b True] @
               [notice ?bot 0xED4245]"
    using lock_result[OF L, of c] I by auto
  have i: "i < length (messages ch)" and pi: "is_panel ?bot ?m"
    using panel_index[OF I] by auto
  have at1: "messages locked ! i = relabelled_panel ?m b True"
    using m1 i by (simp add: nth_append)
  have f1: "panel_field (messages locked ! i) ''Status'' = Some ''`Locked`''"
    and c1: "panel_field (messages locked ! i) ''Claimed By'' = panel_field ?m ''Claimed By''"
    using panel_field_relabelled[OF st, of b True] at1 by (simp_all add: lock_label_def)
  obtain j b' where lk1: "getControlPanelMessage True ?bot locked = Some j"
    and m2: "messages unlocked = (messages locked)[j := relabelled_panel (messages locked ! j) b' False] @
               [notice ?bot 0x57F287]"
    using lock_result[OF U, of c'] B by auto
  have "getControlPanelMessage True ?bot locked = None \<or>
        getControlPanelMessage True ?bot locked = Some i"
    using lookup_after_edit[OF I m1 is_panel_relabelled[OF pi] not_panel_notice] .
  then have j: "j = i" using lk1 by auto
  have i1: "i < length (messages locked)" using m1 i by simp
  have at2: "messages unlocked ! i = relabelled_panel (messages locked ! i) b' False"
    using m2 j i1 by (simp add: nth_append)
  have st1: "panel_field (messages locked ! i) ''Status'' \<noteq> None" using f1 by simp
  have f2: "panel_field (messages unlocked ! i) ''Status'' =
              Some (lock_label (messages locked ! i) False)"
    and c2: "panel_field (messages unlocked ! i) ''Claimed By'' =
              panel_field (messages locked ! i) ''Claimed By''"
    using panel_field_relabelled[OF st1, of b' False] at2 by simp_all
  have lbl: "lock_label (messages locked ! i) False =
          (if panel_field ?m ''Claimed By'' = Some ''`Unclaimed`'' then ''`Open`''
           else ''`In Progress`'')"
    using c1 by (simp add: lock_label_def)
  show ?thesis
    using f1 c1 lk1 j f2 c2 lbl by (simp add: label_matches_claim_def)
qed



text \<open>
  The theorem at a ticket of user 42 whose first message is the control panel of a new
  ticket: lock and unlock succeed, and the status goes from \<open>Open\<close> to \<open>Locked\<close> and back to
  \<open>Open\<close>.
\<close>

theorem lock_unlock_restores_label_witness:
  "let env = \<lparr>panel_fetch_ok = True, perm_edit_ok = True, panel_edit_ok = True,
               panel_send_ok = True, panel_bot_id = ''b''\<rparr>;
       menv = \<lparr>modal_create_ok = True, modal_error_code = 0, modal_welcome_ok = True,
                modal_channel_id = ''9'', modal_bot_id = ''b''\<rparr>;
       u = \<lparr>user_id = ''42'', username = ''ann'', user_tag = ''ann#1''\<rparr>;
       panel = control_panel menv u ''help'' ''it is broken'';
       ows = [(''g'', [(ViewChannel, False)]),
              (''42'', [(ViewChannel, True), (SendMessages, True), (ReadMessageHistory, True)])];
       opened = \<lparr>channel_id = ''9'', channel_name = ''bug-ann'', channel_type = GuildText,
          parentId = Some ''c'',
          channel_topic = Some ''Ticket for ann#1 (User ID: 42). Subject: help'',
          permissionOverwrites = ows, messages = [panel]\<rparr>;
       locked = \<lparr>channel_id = ''9'', channel_name = ''bug-ann'', channel_type = GuildText,
          parentId = Some ''c'',
          channel_topic = Some ''Ticket for ann#1 (User ID: 42). Subject: help'',
          permissionOverwrites = edit_overwrite ''42'' [(SendMessages, False)] ows,
          messages = [relabelled_panel panel ''ticket_claim'' True, notice ''b'' 0xED4245]\<rparr>;
       unlocked = \<lparr>channel_id = ''9'', channel_name = ''bug-ann'', channel_type = GuildText,
          parentId = Some ''c'',
          channel_topic = Some ''Ticket for ann#1 (User ID: 42). Subject: help'',
          permissionOverwrites = edit_overwrite ''42'' [(SendMessages, True)]
             (edit_overwrite ''42'' [(SendMessages, False)] ows),
          messages = [relabelled_panel (relabelled_panel panel ''ticket_claim'' True)
                         ''ticket_claim'' False,
                       notice ''b'' 0xED4245, notice ''b'' 0x57F287]\<rparr>
   in getControlPanelMessage True ''b'' opened = Some 0 \<and>
      handleLockTicket_json env opened True = (Locked ''42'', locked) \<and>
      handleLockTicket_json env locked False = (Unlocked ''42'', unlocked) \<and>
      panel_field (messages opened ! 0) ''Status'' = Some ''`Open`'' \<and>
      panel_field (messages locked ! 0) ''Status'' = Some ''`Locked`'' \<and>
      panel_field (messages unlocked ! 0) ''Status'' = Some ''`Open`''"
proof -
  let ?env = "\<lparr>panel_fetch_ok = True, perm_edit_ok = True, panel_edit_ok = True,
               panel_send_ok = True, panel_bot_id = ''b''\<rparr>"
  let ?menv = "\<lparr>modal_create_ok = True, modal_error_code = 0, modal_welcome_ok = True,
                modal_channel_id = ''9'', modal_bot_id = ''b''\<rparr>"
  let ?u = "\<lparr>user_id = ''42'', username = ''ann'', user_tag = ''ann#1''\<rparr>"
  let ?panel = "control_panel ?menv ?u ''help'' ''it is broken''"
  let ?ows = "[(''g'', [(ViewChannel, False)]),
              (''42'', [(ViewChannel, True), (SendMessages, True), (ReadMessageHistory, True)])]"
  let ?opened = "\<lparr>channel_id = ''9'', channel_name = ''bug-ann'', channel_type = GuildText,
          parentId = Some ''c'',
          channel_topic = Some ''Ticket for ann#1 (User ID: 42). Subject: help'',
          permissionOverwrites = ?ows, messages = [?panel]\<rparr>"
  let ?locked = "\<lparr>channel_id = ''9'', channel_name = ''bug-ann'', channel_type = GuildText,
          parentId = Some ''c'',
          channel_topic = Some ''Ticket for ann#1 (User ID: 42). Subject: help'',
          permissionOverwrites = edit_overwrite ''42'' [(SendMessages, False)] ?ows,
          messages = [relabelled_panel ?panel ''ticket_claim'' True, notice ''b'' 0xED4245]\<rparr>"
  let ?unlocked = "\<lparr>channel_id = ''9'', channel_name = ''bug-ann'', channel_type = GuildText,
          parentId = Some ''c'',
          channel_topic = Some ''Ticket for ann#1 (User ID: 42). Subject: help'',
          permissionOverwrites = edit_overwrite ''42'' [(SendMessages, True)]
             (edit_overwrite ''42'' [(SendMessages, False)] ?ows),
          messages = [relabelled_panel (relabelled_panel ?panel ''ticket_claim'' True)
                         ''ticket_claim'' False,
                       notice ''b'' 0xED4245, notice ''b'' 0x57F287]\<rparr>"
  have creator: "getTicketCreatorId ?opened = Some ''42''"
    and creator': "getTicketCreatorId ?locked = Some ''42''"
    by (simp_all add: getTicketCreatorId_def truthy_def digits_at_def isDigit_def)
  have pp: "is_panel ''b'' ?panel"
    by (simp add: is_panel_def control_panel_def)
  have pr: "is_panel ''b'' (relabelled_panel ?panel ''ticket_claim'' True)"
    using pp by (rule is_panel_relabelled)
  have look: "getControlPanelMessage True ''b'' ?opened = Some 0"
    and look': "getControlPanelMessage True ''b'' ?locked = Some 0"
    using pp pr by (simp_all add: lookup_unfold)
  have st: "panel_field ?panel ''Status'' = Some ''`Open`''"
    and cl: "panel_field ?panel ''Claimed By'' = Some ''`Unclaimed`''"
    by (simp_all add: panel_field_def control_panel_def)
  have st': "panel_field (relabelled_panel ?panel ''ticket_claim'' True) ''Status'' =
               Some ''`Locked`''"
    and cl': "panel_field (relabelled_panel ?panel ''ticket_claim'' True) ''Claimed By'' =
               Some ''`Unclaimed`''"
    using panel_field_relabelled[of ?panel "''ticket_claim''" True] st cl
    by (simp_all add: lock_label_def)
  have st'': "panel_field (relabelled_panel (relabelled_panel ?panel ''ticket_claim'' True)
                 ''ticket_claim'' False) ''Status'' = Some ''`Open`''"
    using panel_field_relabelled[of "relabelled_panel ?panel ''ticket_claim'' True"
            "''ticket_claim''" False] st' cl'
    by (simp add: lock_label_def)
  have bt: "claim_button_of ?panel = Some (Some ''ticket_claim'')"
    by (simp add: claim_button_of_def control_panel_def)
  have bt': "claim_button_of (relabelled_panel ?panel ''ticket_claim'' True) =
               Some (Some ''ticket_claim'')"
    by (simp add: claim_button_of_def relabelled_panel_def update_panel_def)
  have L: "handleLockTicket_json ?env ?opened True = (Locked ''42'', ?locked)"
    by (simp add: handleLockTicket_json_def creator look bt st)
  have U: "handleLockTicket_json ?env ?locked False = (Unlocked ''42'', ?unlocked)"
    by (simp add: handleLockTicket_json_def creator' look' bt' st' cl')
  have m: "label_matches_claim (messages ?opened ! 0)"
    by (simp add: fresh_panel_matches)
  note t = lock_unlock_restores_label
    [where env = ?env and env' = ?env and ch = ?opened and c = "''42''" and c' = "''42''"
       and i = 0 and locked = ?locked and unlocked = ?unlocked, OF L U _ _]
  show ?thesis
    using t look L U st st' st'' m by (simp add: Let_def)
qed

section \<open>Claiming a ticket\<close>

subsection \<open>The claimer in the topic\<close>

lemma startsWith_append_split:
  "startsWith (p # ps) (u @ t) =
     (case u of [] \<Rightarrow> startsWith (p # ps) t | x # xs \<Rightarrow> p = x \<and> startsWith ps (xs @ t))"
  by (cases u) auto

lemma drop_append_split:
  "drop (Suc n) (u @ t) = (case u of [] \<Rightarrow> drop (Suc n) t | x # xs \<Rightarrow> drop n (xs @ t))"
  by (cases u) auto

lemma startsWith_take: "startsWith p s \<Longrightarrow> startsWith p (s @ t)"
  by (induction p s rule: startsWith.induct) auto


















subsection \<open>The claim handlers\<close>











section \<open>Closing a ticket\<close>






end
